theory Spec2Isabelle
  imports Main
begin

section \<open>Values exchanged with the transport\<close>

text \<open>
  The transport hands back parsed JSON and the caller may hand in raw key/value mappings,
  so the values of the model are Python's JSON-like values. A \<open>str\<close> is a list of
  characters, one element per code point (\<open>length\<close> is Python's \<open>len\<close>). A \<open>dict\<close>
  is an association list in insertion order, read with \<open>map_of\<close> (a \<open>dict\<close> has no
  key twice; no theorem needs that). Floating point
  numbers are kept opaque: nothing in this module computes with them.
\<close>

typedecl pyfloat

datatype pyval =
    PNone
  | PBool bool
  | PInt int
  | PFloat pyfloat
  | PStr string
  | PList "pyval list"
  | PDict "(string \<times> pyval) list"

text \<open>
  What a call can raise. \<open>ValidationError\<close> is the schema library's, raised while a model
  is constructed; \<open>TypeError\<close> and \<open>AttributeError\<close> are the interpreter's (\<open>**x\<close> on a
  value that is no mapping, iteration over a value that is not iterable, \<open>.get\<close> on a
  value that has no such method); \<open>Raised e\<close> is an error \<open>e\<close> raised by the transport.
\<close>

datatype 'e error = ValidationError | TypeError | AttributeError | Raised 'e

section \<open>Field validation of the schema library\<close>

text \<open>
  The models are pydantic models in the library's default (lax) mode. Among the
  JSON-like values, a \<open>str\<close> field accepts a \<open>str\<close> and nothing else. An \<open>int\<close>
  field accepts an \<open>int\<close>, a \<open>bool\<close> (\<open>True\<close> is \<open>1\<close>) and those floats and
  strings the library converts to an integer; a \<open>bool\<close> field accepts a \<open>bool\<close>, the
  integers \<open>0\<close> and \<open>1\<close>, and those floats and strings the library converts to a
  boolean. \<open>None\<close>, a list and a mapping are accepted by none of the three. Which
  floats and which strings are converted, and to what, is the library's matter and is a
  parameter of the model: every theorem holds for every choice of it.
\<close>

record coercions =
  int_of_float :: "pyfloat \<Rightarrow> int option"
  int_of_str :: "string \<Rightarrow> int option"
  bool_of_float :: "pyfloat \<Rightarrow> bool option"
  bool_of_str :: "string \<Rightarrow> bool option"

definition validate_str :: "pyval \<Rightarrow> string option" where
  "validate_str v = (case v of PStr s \<Rightarrow> Some s | _ \<Rightarrow> None)"

definition validate_int :: "coercions \<Rightarrow> pyval \<Rightarrow> int option" where
  "validate_int cz v =
     (case v of
        PInt i \<Rightarrow> Some i
      | PBool b \<Rightarrow> Some (if b then 1 else 0)
      | PFloat f \<Rightarrow> int_of_float cz f
      | PStr s \<Rightarrow> int_of_str cz s
      | _ \<Rightarrow> None)"

definition validate_bool :: "coercions \<Rightarrow> pyval \<Rightarrow> bool option" where
  "validate_bool cz v =
     (case v of
        PBool b \<Rightarrow> Some b
      | PInt i \<Rightarrow> (if i = 0 then Some False else if i = 1 then Some True else None)
      | PFloat f \<Rightarrow> bool_of_float cz f
      | PStr s \<Rightarrow> bool_of_str cz s
      | _ \<Rightarrow> None)"

text \<open>
  A required field: the key must be present and its value must validate.
  An optional field \<open>Optional[T] = Field(None, ...)\<close>: an absent key and an explicit
  \<open>None\<close> both give \<open>None\<close>; any other value must validate as \<open>T\<close>.
  The outer \<open>option\<close> is failure of the validation, the inner one is the field's value.
\<close>

definition required :: "(pyval \<Rightarrow> 'a option) \<Rightarrow> (string \<times> pyval) list \<Rightarrow> string \<Rightarrow> 'a option" where
  "required val kwargs k = (case map_of kwargs k of None \<Rightarrow> None | Some v \<Rightarrow> val v)"

definition optional :: "(pyval \<Rightarrow> 'a option) \<Rightarrow> (string \<times> pyval) list \<Rightarrow> string \<Rightarrow> 'a option option" where
  "optional val kwargs k =
     (case map_of kwargs k of
        None \<Rightarrow> Some None
      | Some PNone \<Rightarrow> Some None
      | Some v \<Rightarrow> (case val v of None \<Rightarrow> None | Some a \<Rightarrow> Some (Some a)))"

text \<open>A \<open>List[T]\<close> field: the value must be a list and every element must validate.\<close>

fun validate_all :: "('b \<Rightarrow> 'a option) \<Rightarrow> 'b list \<Rightarrow> 'a list option" where
  "validate_all val [] = Some []"
| "validate_all val (x # xs) =
     (case val x of
        None \<Rightarrow> None
      | Some a \<Rightarrow> (case validate_all val xs of None \<Rightarrow> None | Some as \<Rightarrow> Some (a # as)))"

definition validate_list :: "(pyval \<Rightarrow> 'a option) \<Rightarrow> pyval \<Rightarrow> 'a list option" where
  "validate_list val v = (case v of PList xs \<Rightarrow> validate_all val xs | _ \<Rightarrow> None)"

section \<open>The models of \<open>tags/models.py\<close>\<close>

text \<open>
  Each model is a record; field \<open>f\<close> of a model is written with a short prefix for the
  model (\<open>kt_id\<close> is \<open>KnowledgeTag.id\<close>), since several models declare fields of the same
  name. For a model \<open>M\<close>, \<open>M_validate\<close> is the validation of the keyword arguments,
  \<open>M_init\<close> is the constructor \<open>M(...)\<close>, which raises \<open>ValidationError\<close> when the
  validation fails, and \<open>M_model_dump\<close> is \<open>M.model_dump()\<close>: the fields under their
  declared names, in the order of declaration, nested models dumped in turn.
\<close>

definition construct :: "'a option \<Rightarrow> 'e error + 'a" where
  "construct r = (case r of None \<Rightarrow> Inl ValidationError | Some m \<Rightarrow> Inr m)"

text \<open>\<open>M(**x)\<close>: \<open>x\<close> must be a mapping, or the interpreter raises \<open>TypeError\<close>.\<close>

definition unpack :: "((string \<times> pyval) list \<Rightarrow> 'e error + 'a) \<Rightarrow> pyval \<Rightarrow> 'e error + 'a" where
  "unpack init x = (case x of PDict kwargs \<Rightarrow> init kwargs | _ \<Rightarrow> Inl TypeError)"

text \<open>A field whose type is a model: the value must be a mapping that validates.\<close>

definition validate_model :: "((string \<times> pyval) list \<Rightarrow> 'a option) \<Rightarrow> pyval \<Rightarrow> 'a option" where
  "validate_model val v = (case v of PDict kwargs \<Rightarrow> val kwargs | _ \<Rightarrow> None)"

subsection \<open>Knowledge tags\<close>

record KnowledgeTag =
  kt_id :: string
  kt_name :: string
  kt_color :: "string option"
  kt_created_at :: "int option"
  kt_updated_at :: "int option"
  kt_binding_count :: "int option"

text \<open>
  Every declared field is validated, keys that are not declared are never looked at
  (\<open>extra="ignore"\<close>), and one failing field fails the construction.
\<close>

definition KnowledgeTag_validate :: "coercions \<Rightarrow> (string \<times> pyval) list \<Rightarrow> KnowledgeTag option" where
  "KnowledgeTag_validate cz kwargs =
     (case (required validate_str kwargs ''id'',
            required validate_str kwargs ''name'',
            optional validate_str kwargs ''color'',
            optional (validate_int cz) kwargs ''created_at'',
            optional (validate_int cz) kwargs ''updated_at'',
            optional (validate_int cz) kwargs ''binding_count'') of
        (Some i, Some n, Some c, Some ca, Some ua, Some bc) \<Rightarrow>
          Some \<lparr>kt_id = i, kt_name = n, kt_color = c, kt_created_at = ca,
                kt_updated_at = ua, kt_binding_count = bc\<rparr>
      | _ \<Rightarrow> None)"

definition KnowledgeTag_init :: "coercions \<Rightarrow> (string \<times> pyval) list \<Rightarrow> 'e error + KnowledgeTag" where
  "KnowledgeTag_init cz kwargs = construct (KnowledgeTag_validate cz kwargs)"

text \<open>
  The request models are built by the client from arguments annotated \<open>str\<close> and
  \<open>List[str]\<close>, so their constructors take strings; the one constraint a string can
  break is \<open>max_length=50\<close> on a tag name.
\<close>

record CreateKnowledgeTagRequest =
  ckt_name :: string

definition CreateKnowledgeTagRequest_init :: "string \<Rightarrow> 'e error + CreateKnowledgeTagRequest" where
  "CreateKnowledgeTagRequest_init name =
     construct (if length name \<le> 50 then Some \<lparr>ckt_name = name\<rparr> else None)"

definition CreateKnowledgeTagRequest_model_dump :: "CreateKnowledgeTagRequest \<Rightarrow> pyval" where
  "CreateKnowledgeTagRequest_model_dump r = PDict [(''name'', PStr (ckt_name r))]"

record UpdateKnowledgeTagRequest =
  ukt_name :: string
  ukt_tag_id :: string

definition UpdateKnowledgeTagRequest_init :: "string \<Rightarrow> string \<Rightarrow> 'e error + UpdateKnowledgeTagRequest" where
  "UpdateKnowledgeTagRequest_init name tag_id =
     construct (if length name \<le> 50 then Some \<lparr>ukt_name = name, ukt_tag_id = tag_id\<rparr> else None)"

definition UpdateKnowledgeTagRequest_model_dump :: "UpdateKnowledgeTagRequest \<Rightarrow> pyval" where
  "UpdateKnowledgeTagRequest_model_dump r =
     PDict [(''name'', PStr (ukt_name r)), (''tag_id'', PStr (ukt_tag_id r))]"

record DeleteKnowledgeTagRequest =
  dkt_tag_id :: string

definition DeleteKnowledgeTagRequest_init :: "string \<Rightarrow> 'e error + DeleteKnowledgeTagRequest" where
  "DeleteKnowledgeTagRequest_init tag_id = construct (Some \<lparr>dkt_tag_id = tag_id\<rparr>)"

definition DeleteKnowledgeTagRequest_model_dump :: "DeleteKnowledgeTagRequest \<Rightarrow> pyval" where
  "DeleteKnowledgeTagRequest_model_dump r = PDict [(''tag_id'', PStr (dkt_tag_id r))]"

record BindDatasetToTagRequest =
  bind_tag_ids :: "string list"
  bind_target_id :: string

definition BindDatasetToTagRequest_init :: "string list \<Rightarrow> string \<Rightarrow> 'e error + BindDatasetToTagRequest" where
  "BindDatasetToTagRequest_init tag_ids target_id =
     construct (Some \<lparr>bind_tag_ids = tag_ids, bind_target_id = target_id\<rparr>)"

definition BindDatasetToTagRequest_model_dump :: "BindDatasetToTagRequest \<Rightarrow> pyval" where
  "BindDatasetToTagRequest_model_dump r =
     PDict [(''tag_ids'', PList (map PStr (bind_tag_ids r))),
            (''target_id'', PStr (bind_target_id r))]"

record UnbindDatasetFromTagRequest =
  unbind_tag_id :: string
  unbind_target_id :: string

definition UnbindDatasetFromTagRequest_init :: "string \<Rightarrow> string \<Rightarrow> 'e error + UnbindDatasetFromTagRequest" where
  "UnbindDatasetFromTagRequest_init tag_id target_id =
     construct (Some \<lparr>unbind_tag_id = tag_id, unbind_target_id = target_id\<rparr>)"

definition UnbindDatasetFromTagRequest_model_dump :: "UnbindDatasetFromTagRequest \<Rightarrow> pyval" where
  "UnbindDatasetFromTagRequest_model_dump r =
     PDict [(''tag_id'', PStr (unbind_tag_id r)), (''target_id'', PStr (unbind_target_id r))]"

subsection \<open>Metadata\<close>

record Metadata =
  md_id :: string
  md_type :: string
  md_name :: string
  md_use_count :: "int option"

definition Metadata_validate :: "coercions \<Rightarrow> (string \<times> pyval) list \<Rightarrow> Metadata option" where
  "Metadata_validate cz kwargs =
     (case (required validate_str kwargs ''id'',
            required validate_str kwargs ''type'',
            required validate_str kwargs ''name'',
            optional (validate_int cz) kwargs ''use_count'') of
        (Some i, Some t, Some n, Some u) \<Rightarrow>
          Some \<lparr>md_id = i, md_type = t, md_name = n, md_use_count = u\<rparr>
      | _ \<Rightarrow> None)"

definition Metadata_init :: "coercions \<Rightarrow> (string \<times> pyval) list \<Rightarrow> 'e error + Metadata" where
  "Metadata_init cz kwargs = construct (Metadata_validate cz kwargs)"

record MetadataValue =
  mv_id :: string
  mv_value :: string
  mv_name :: string

definition MetadataValue_validate :: "(string \<times> pyval) list \<Rightarrow> MetadataValue option" where
  "MetadataValue_validate kwargs =
     (case (required validate_str kwargs ''id'',
            required validate_str kwargs ''value'',
            required validate_str kwargs ''name'') of
        (Some i, Some v, Some n) \<Rightarrow> Some \<lparr>mv_id = i, mv_value = v, mv_name = n\<rparr>
      | _ \<Rightarrow> None)"

definition MetadataValue_model_dump :: "MetadataValue \<Rightarrow> pyval" where
  "MetadataValue_model_dump m =
     PDict [(''id'', PStr (mv_id m)), (''value'', PStr (mv_value m)), (''name'', PStr (mv_name m))]"

record DocumentMetadata =
  dm_document_id :: string
  dm_metadata_list :: "MetadataValue list"

definition DocumentMetadata_validate :: "(string \<times> pyval) list \<Rightarrow> DocumentMetadata option" where
  "DocumentMetadata_validate kwargs =
     (case (required validate_str kwargs ''document_id'',
            required (validate_list (validate_model MetadataValue_validate)) kwargs ''metadata_list'') of
        (Some d, Some ms) \<Rightarrow> Some \<lparr>dm_document_id = d, dm_metadata_list = ms\<rparr>
      | _ \<Rightarrow> None)"

definition DocumentMetadata_init :: "(string \<times> pyval) list \<Rightarrow> 'e error + DocumentMetadata" where
  "DocumentMetadata_init kwargs = construct (DocumentMetadata_validate kwargs)"

definition DocumentMetadata_model_dump :: "DocumentMetadata \<Rightarrow> pyval" where
  "DocumentMetadata_model_dump d =
     PDict [(''document_id'', PStr (dm_document_id d)),
            (''metadata_list'', PList (map MetadataValue_model_dump (dm_metadata_list d)))]"

record CreateMetadataRequest =
  cm_type :: string
  cm_name :: string

definition CreateMetadataRequest_init :: "string \<Rightarrow> string \<Rightarrow> 'e error + CreateMetadataRequest" where
  "CreateMetadataRequest_init type name = construct (Some \<lparr>cm_type = type, cm_name = name\<rparr>)"

definition CreateMetadataRequest_model_dump :: "CreateMetadataRequest \<Rightarrow> pyval" where
  "CreateMetadataRequest_model_dump r =
     PDict [(''type'', PStr (cm_type r)), (''name'', PStr (cm_name r))]"

record UpdateMetadataRequest =
  um_name :: string

definition UpdateMetadataRequest_init :: "string \<Rightarrow> 'e error + UpdateMetadataRequest" where
  "UpdateMetadataRequest_init name = construct (Some \<lparr>um_name = name\<rparr>)"

definition UpdateMetadataRequest_model_dump :: "UpdateMetadataRequest \<Rightarrow> pyval" where
  "UpdateMetadataRequest_model_dump r = PDict [(''name'', PStr (um_name r))]"

text \<open>
  \<open>operation_data\<close> is handed over as a list of \<open>DocumentMetadata\<close> instances, which the
  library accepts as they are.
\<close>

record UpdateDocumentMetadataRequest =
  udm_operation_data :: "DocumentMetadata list"

definition UpdateDocumentMetadataRequest_init :: "DocumentMetadata list \<Rightarrow> 'e error + UpdateDocumentMetadataRequest" where
  "UpdateDocumentMetadataRequest_init operation_data =
     construct (Some \<lparr>udm_operation_data = operation_data\<rparr>)"

definition UpdateDocumentMetadataRequest_model_dump :: "UpdateDocumentMetadataRequest \<Rightarrow> pyval" where
  "UpdateDocumentMetadataRequest_model_dump r =
     PDict [(''operation_data'', PList (map DocumentMetadata_model_dump (udm_operation_data r)))]"

record MetadataListResponse =
  mlr_doc_metadata :: "Metadata list"
  mlr_built_in_field_enabled :: bool

definition MetadataListResponse_validate :: "coercions \<Rightarrow> (string \<times> pyval) list \<Rightarrow> MetadataListResponse option" where
  "MetadataListResponse_validate cz kwargs =
     (case (required (validate_list (validate_model (Metadata_validate cz))) kwargs ''doc_metadata'',
            required (validate_bool cz) kwargs ''built_in_field_enabled'') of
        (Some ms, Some b) \<Rightarrow> Some \<lparr>mlr_doc_metadata = ms, mlr_built_in_field_enabled = b\<rparr>
      | _ \<Rightarrow> None)"

definition MetadataListResponse_init :: "coercions \<Rightarrow> (string \<times> pyval) list \<Rightarrow> 'e error + MetadataListResponse" where
  "MetadataListResponse_init cz kwargs = construct (MetadataListResponse_validate cz kwargs)"

section \<open>The transport\<close>

text \<open>
  \<open>BaseClient\<close> is injected: its \<open>get\<close>, \<open>post\<close>, \<open>patch\<close> and \<open>delete\<close> take a path
  and, where the caller passes one, a \<open>json\<close> body; they return parsed JSON or raise an
  error of their own. It is a parameter of the model: a function from the request and
  the state \<open>'s\<close> of whatever is behind it to the outcome and the next state. The
  session pairs that state with the log of the requests the transport has received, so
  that how often a method calls the transport can be read off.
\<close>

datatype verb = GET | POST | PATCH | DELETE

record request =
  verb :: verb
  path :: string
  json :: "pyval option"

type_synonym ('s, 'e) BaseClient = "request \<Rightarrow> 's \<Rightarrow> ('e + pyval) \<times> 's"

record 's session =
  server :: 's
  calls :: "request list"

definition send :: "('s, 'e) BaseClient \<Rightarrow> verb \<Rightarrow> string \<Rightarrow> pyval option \<Rightarrow> 's session
    \<Rightarrow> ('e error + pyval) \<times> 's session" where
  "send client v p j \<sigma> =
     (let rq = \<lparr>verb = v, path = p, json = j\<rparr> in
      case client rq (server \<sigma>) of
        (r, s') \<Rightarrow>
          (case r of Inl e \<Rightarrow> Inl (Raised e) | Inr response \<Rightarrow> Inr response,
           \<lparr>server = s', calls = calls \<sigma> @ [rq]\<rparr>))"

section \<open>The interpreter's part\<close>

text \<open>
  \<open>x.get(k, d)\<close> exists on a \<open>dict\<close> only. \<open>for tag in x\<close> runs over the elements of
  a list, the keys of a \<open>dict\<close> and the characters of a \<open>str\<close>; nothing else among the
  JSON-like values is iterable. A comprehension \<open>[f(x) for x in xs]\<close> evaluates from
  left to right and stops at the first call that raises.
\<close>

definition py_get :: "pyval \<Rightarrow> string \<Rightarrow> pyval \<Rightarrow> 'e error + pyval" where
  "py_get x k d =
     (case x of
        PDict kvs \<Rightarrow> Inr (case map_of kvs k of None \<Rightarrow> d | Some v \<Rightarrow> v)
      | _ \<Rightarrow> Inl AttributeError)"

definition py_iter :: "pyval \<Rightarrow> 'e error + pyval list" where
  "py_iter x =
     (case x of
        PList xs \<Rightarrow> Inr xs
      | PDict kvs \<Rightarrow> Inr (map (\<lambda>kv. PStr (fst kv)) kvs)
      | PStr s \<Rightarrow> Inr (map (\<lambda>c. PStr [c]) s)
      | _ \<Rightarrow> Inl TypeError)"

fun comprehension :: "('a \<Rightarrow> 'e error + 'b) \<Rightarrow> 'a list \<Rightarrow> 'e error + 'b list" where
  "comprehension f [] = Inr []"
| "comprehension f (x # xs) =
     (case f x of
        Inl e \<Rightarrow> Inl e
      | Inr y \<Rightarrow> (case comprehension f xs of Inl e \<Rightarrow> Inl e | Inr ys \<Rightarrow> Inr (y # ys)))"

section \<open>The client of \<open>tags/client.py\<close>\<close>

text \<open>
  A method takes the coercions of the schema library (where it parses a response), the
  transport, its arguments and the session, and returns what the call returns or raises,
  with the session afterwards. An error leaves the method at once, as the exception
  does.
\<close>

subsection \<open>Knowledge tag operations\<close>

definition TagsClient_create :: "coercions \<Rightarrow> ('s, 'e) BaseClient \<Rightarrow> string \<Rightarrow> 's session
    \<Rightarrow> ('e error + KnowledgeTag) \<times> 's session" where
  "TagsClient_create cz client name \<sigma> =
     (case CreateKnowledgeTagRequest_init name of
        Inl e \<Rightarrow> (Inl e, \<sigma>)
      | Inr request \<Rightarrow>
          (case send client POST ''/v1/datasets/tags''
                  (Some (CreateKnowledgeTagRequest_model_dump request)) \<sigma> of
             (Inl e, \<sigma>') \<Rightarrow> (Inl e, \<sigma>')
           | (Inr response, \<sigma>') \<Rightarrow> (unpack (KnowledgeTag_init cz) response, \<sigma>')))"

definition TagsClient_list :: "coercions \<Rightarrow> ('s, 'e) BaseClient \<Rightarrow> 's session
    \<Rightarrow> ('e error + KnowledgeTag list) \<times> 's session" where
  "TagsClient_list cz client \<sigma> =
     (case send client GET ''/v1/datasets/tags'' None \<sigma> of
        (Inl e, \<sigma>') \<Rightarrow> (Inl e, \<sigma>')
      | (Inr response, \<sigma>') \<Rightarrow>
          (case response of
             PList tags \<Rightarrow> comprehension (unpack (KnowledgeTag_init cz)) tags
           | _ \<Rightarrow>
               (case py_get response ''data'' (PList []) of
                  Inl e \<Rightarrow> Inl e
                | Inr data \<Rightarrow>
                    (case py_iter data of
                       Inl e \<Rightarrow> Inl e
                     | Inr tags \<Rightarrow> comprehension (unpack (KnowledgeTag_init cz)) tags)),
           \<sigma>'))"

definition TagsClient_update :: "coercions \<Rightarrow> ('s, 'e) BaseClient \<Rightarrow> string \<Rightarrow> string \<Rightarrow> 's session
    \<Rightarrow> ('e error + KnowledgeTag) \<times> 's session" where
  "TagsClient_update cz client tag_id name \<sigma> =
     (case UpdateKnowledgeTagRequest_init name tag_id of
        Inl e \<Rightarrow> (Inl e, \<sigma>)
      | Inr request \<Rightarrow>
          (case send client PATCH ''/v1/datasets/tags''
                  (Some (UpdateKnowledgeTagRequest_model_dump request)) \<sigma> of
             (Inl e, \<sigma>') \<Rightarrow> (Inl e, \<sigma>')
           | (Inr response, \<sigma>') \<Rightarrow> (unpack (KnowledgeTag_init cz) response, \<sigma>')))"

definition TagsClient_delete :: "('s, 'e) BaseClient \<Rightarrow> string \<Rightarrow> 's session
    \<Rightarrow> ('e error + pyval) \<times> 's session" where
  "TagsClient_delete client tag_id \<sigma> =
     (case DeleteKnowledgeTagRequest_init tag_id of
        Inl e \<Rightarrow> (Inl e, \<sigma>)
      | Inr request \<Rightarrow>
          send client DELETE ''/v1/datasets/tags''
            (Some (DeleteKnowledgeTagRequest_model_dump request)) \<sigma>)"

definition TagsClient_bind_to_dataset :: "('s, 'e) BaseClient \<Rightarrow> string \<Rightarrow> string list \<Rightarrow> 's session
    \<Rightarrow> ('e error + pyval) \<times> 's session" where
  "TagsClient_bind_to_dataset client dataset_id tag_ids \<sigma> =
     (case BindDatasetToTagRequest_init tag_ids dataset_id of
        Inl e \<Rightarrow> (Inl e, \<sigma>)
      | Inr request \<Rightarrow>
          send client POST ''/v1/datasets/tags/binding''
            (Some (BindDatasetToTagRequest_model_dump request)) \<sigma>)"

definition TagsClient_unbind_from_dataset :: "('s, 'e) BaseClient \<Rightarrow> string \<Rightarrow> string \<Rightarrow> 's session
    \<Rightarrow> ('e error + pyval) \<times> 's session" where
  "TagsClient_unbind_from_dataset client dataset_id tag_id \<sigma> =
     (case UnbindDatasetFromTagRequest_init tag_id dataset_id of
        Inl e \<Rightarrow> (Inl e, \<sigma>)
      | Inr request \<Rightarrow>
          send client POST ''/v1/datasets/tags/unbinding''
            (Some (UnbindDatasetFromTagRequest_model_dump request)) \<sigma>)"

definition TagsClient_get_dataset_tags :: "coercions \<Rightarrow> ('s, 'e) BaseClient \<Rightarrow> string \<Rightarrow> 's session
    \<Rightarrow> ('e error + KnowledgeTag list) \<times> 's session" where
  "TagsClient_get_dataset_tags cz client dataset_id \<sigma> =
     (case send client GET (''/v1/datasets/'' @ dataset_id @ ''/tags'') None \<sigma> of
        (Inl e, \<sigma>') \<Rightarrow> (Inl e, \<sigma>')
      | (Inr response, \<sigma>') \<Rightarrow>
          (case response of
             PList tags \<Rightarrow> comprehension (unpack (KnowledgeTag_init cz)) tags
           | _ \<Rightarrow>
               (case py_get response ''data'' (PList []) of
                  Inl e \<Rightarrow> Inl e
                | Inr data \<Rightarrow>
                    (case py_iter data of
                       Inl e \<Rightarrow> Inl e
                     | Inr tags \<Rightarrow> comprehension (unpack (KnowledgeTag_init cz)) tags)),
           \<sigma>'))"

subsection \<open>Metadata operations\<close>

definition TagsClient_create_metadata :: "coercions \<Rightarrow> ('s, 'e) BaseClient \<Rightarrow> string \<Rightarrow> string \<Rightarrow> string
    \<Rightarrow> 's session \<Rightarrow> ('e error + Metadata) \<times> 's session" where
  "TagsClient_create_metadata cz client dataset_id field_type name \<sigma> =
     (case CreateMetadataRequest_init field_type name of
        Inl e \<Rightarrow> (Inl e, \<sigma>)
      | Inr request \<Rightarrow>
          (case send client POST (''/v1/datasets/'' @ dataset_id @ ''/metadata'')
                  (Some (CreateMetadataRequest_model_dump request)) \<sigma> of
             (Inl e, \<sigma>') \<Rightarrow> (Inl e, \<sigma>')
           | (Inr response, \<sigma>') \<Rightarrow> (unpack (Metadata_init cz) response, \<sigma>')))"

definition TagsClient_update_metadata :: "coercions \<Rightarrow> ('s, 'e) BaseClient \<Rightarrow> string \<Rightarrow> string \<Rightarrow> string
    \<Rightarrow> 's session \<Rightarrow> ('e error + Metadata) \<times> 's session" where
  "TagsClient_update_metadata cz client dataset_id metadata_id name \<sigma> =
     (case UpdateMetadataRequest_init name of
        Inl e \<Rightarrow> (Inl e, \<sigma>)
      | Inr request \<Rightarrow>
          (case send client PATCH (''/v1/datasets/'' @ dataset_id @ ''/metadata/'' @ metadata_id)
                  (Some (UpdateMetadataRequest_model_dump request)) \<sigma> of
             (Inl e, \<sigma>') \<Rightarrow> (Inl e, \<sigma>')
           | (Inr response, \<sigma>') \<Rightarrow> (unpack (Metadata_init cz) response, \<sigma>')))"

definition TagsClient_delete_metadata :: "('s, 'e) BaseClient \<Rightarrow> string \<Rightarrow> string \<Rightarrow> 's session
    \<Rightarrow> ('e error + pyval) \<times> 's session" where
  "TagsClient_delete_metadata client dataset_id metadata_id \<sigma> =
     send client DELETE (''/v1/datasets/'' @ dataset_id @ ''/metadata/'' @ metadata_id) None \<sigma>"

text \<open>
  The annotation \<open>Literal["disable", "enable"]\<close> is for the type checker; the body
  formats whatever string it is given into the path.
\<close>

definition TagsClient_toggle_built_in_metadata :: "('s, 'e) BaseClient \<Rightarrow> string \<Rightarrow> string \<Rightarrow> 's session
    \<Rightarrow> ('e error + pyval) \<times> 's session" where
  "TagsClient_toggle_built_in_metadata client dataset_id action \<sigma> =
     send client POST (''/v1/datasets/'' @ dataset_id @ ''/metadata/built-in/'' @ action) None \<sigma>"

text \<open>
  An item of \<open>operation_data\<close> is a raw mapping (\<open>isinstance(item, dict)\<close>) or a
  \<open>DocumentMetadata\<close> built by the caller.
\<close>

datatype operation_item = Mapping "(string \<times> pyval) list" | Instance DocumentMetadata

fun convert :: "operation_item list \<Rightarrow> 'e error + DocumentMetadata list" where
  "convert [] = Inr []"
| "convert (item # items) =
     (case (case item of Mapping kwargs \<Rightarrow> DocumentMetadata_init kwargs | Instance d \<Rightarrow> Inr d) of
        Inl e \<Rightarrow> Inl e
      | Inr d \<Rightarrow> (case convert items of Inl e \<Rightarrow> Inl e | Inr ds \<Rightarrow> Inr (d # ds)))"

definition TagsClient_update_document_metadata :: "('s, 'e) BaseClient \<Rightarrow> string \<Rightarrow> operation_item list
    \<Rightarrow> 's session \<Rightarrow> ('e error + pyval) \<times> 's session" where
  "TagsClient_update_document_metadata client dataset_id operation_data \<sigma> =
     (case convert operation_data of
        Inl e \<Rightarrow> (Inl e, \<sigma>)
      | Inr converted_data \<Rightarrow>
          (case UpdateDocumentMetadataRequest_init converted_data of
             Inl e \<Rightarrow> (Inl e, \<sigma>)
           | Inr request \<Rightarrow>
               send client POST (''/v1/datasets/'' @ dataset_id @ ''/documents/metadata'')
                 (Some (UpdateDocumentMetadataRequest_model_dump request)) \<sigma>))"

definition TagsClient_list_metadata :: "coercions \<Rightarrow> ('s, 'e) BaseClient \<Rightarrow> string \<Rightarrow> 's session
    \<Rightarrow> ('e error + MetadataListResponse) \<times> 's session" where
  "TagsClient_list_metadata cz client dataset_id \<sigma> =
     (case send client GET (''/v1/datasets/'' @ dataset_id @ ''/metadata'') None \<sigma> of
        (Inl e, \<sigma>') \<Rightarrow> (Inl e, \<sigma>')
      | (Inr response, \<sigma>') \<Rightarrow> (unpack (MetadataListResponse_init cz) response, \<sigma>'))"

section \<open>Notions the properties are stated with\<close>

text \<open>
  A method run from session \<open>\<sigma>\<close> made exactly one transport call, the request \<open>rq\<close>,
  when the session afterwards is the one the transport leaves after serving \<open>rq\<close> once,
  with \<open>rq\<close> appended to the log; and it passed an error of the transport on unchanged
  when it raises that very error.
\<close>

definition exactly_one_call :: "('s, 'e) BaseClient \<Rightarrow> request \<Rightarrow> 's session
    \<Rightarrow> ('e error + 'a) \<times> 's session \<Rightarrow> bool" where
  "exactly_one_call client rq \<sigma> out \<longleftrightarrow>
     snd out = \<lparr>server = snd (client rq (server \<sigma>)), calls = calls \<sigma> @ [rq]\<rparr> \<and>
     (case fst (client rq (server \<sigma>)) of
        Inl e \<Rightarrow> fst out = Inl (Raised e)
      | Inr response \<Rightarrow> True)"

text \<open>
  The shapes of the values a field takes, written out value by value. A string field
  takes a string. An integer field takes an integer, a boolean, and a float or a string
  that the schema library converts to an integer. A boolean field takes a boolean, the
  integers \<open>0\<close> and \<open>1\<close>, and a float or a string that the library converts to a
  boolean. A required field is at fault when it is absent or not of its shape; an
  optional field is at fault when it is present, not \<open>None\<close>, and not of its shape.
\<close>

definition str_shaped :: "pyval \<Rightarrow> bool" where
  "str_shaped v \<longleftrightarrow> (case v of PStr s \<Rightarrow> True | _ \<Rightarrow> False)"

definition int_shaped :: "coercions \<Rightarrow> pyval \<Rightarrow> bool" where
  "int_shaped cz v \<longleftrightarrow>
     (case v of
        PInt i \<Rightarrow> True
      | PBool b \<Rightarrow> True
      | PFloat f \<Rightarrow> int_of_float cz f \<noteq> None
      | PStr s \<Rightarrow> int_of_str cz s \<noteq> None
      | _ \<Rightarrow> False)"

definition bool_shaped :: "coercions \<Rightarrow> pyval \<Rightarrow> bool" where
  "bool_shaped cz v \<longleftrightarrow>
     (case v of
        PBool b \<Rightarrow> True
      | PInt i \<Rightarrow> i = 0 \<or> i = 1
      | PFloat f \<Rightarrow> bool_of_float cz f \<noteq> None
      | PStr s \<Rightarrow> bool_of_str cz s \<noteq> None
      | _ \<Rightarrow> False)"

definition absent_or_not :: "(pyval \<Rightarrow> bool) \<Rightarrow> (string \<times> pyval) list \<Rightarrow> string \<Rightarrow> bool" where
  "absent_or_not shaped kwargs k \<longleftrightarrow>
     (case map_of kwargs k of None \<Rightarrow> True | Some v \<Rightarrow> \<not> shaped v)"

definition present_and_not :: "(pyval \<Rightarrow> bool) \<Rightarrow> (string \<times> pyval) list \<Rightarrow> string \<Rightarrow> bool" where
  "present_and_not shaped kwargs k \<longleftrightarrow>
     (case map_of kwargs k of None \<Rightarrow> False | Some v \<Rightarrow> v \<noteq> PNone \<and> \<not> shaped v)"

text \<open>
  The mappings at fault for each response schema, and the shape of \<open>doc_metadata\<close>: a
  list of mappings none of which is at fault for \<open>Metadata\<close>.
\<close>

definition KnowledgeTag_at_fault :: "coercions \<Rightarrow> (string \<times> pyval) list \<Rightarrow> bool" where
  "KnowledgeTag_at_fault cz kwargs \<longleftrightarrow>
     absent_or_not str_shaped kwargs ''id'' \<or>
     absent_or_not str_shaped kwargs ''name'' \<or>
     present_and_not str_shaped kwargs ''color'' \<or>
     present_and_not (int_shaped cz) kwargs ''created_at'' \<or>
     present_and_not (int_shaped cz) kwargs ''updated_at'' \<or>
     present_and_not (int_shaped cz) kwargs ''binding_count''"

definition Metadata_at_fault :: "coercions \<Rightarrow> (string \<times> pyval) list \<Rightarrow> bool" where
  "Metadata_at_fault cz kwargs \<longleftrightarrow>
     absent_or_not str_shaped kwargs ''id'' \<or>
     absent_or_not str_shaped kwargs ''type'' \<or>
     absent_or_not str_shaped kwargs ''name'' \<or>
     present_and_not (int_shaped cz) kwargs ''use_count''"

definition Metadata_list_shaped :: "coercions \<Rightarrow> pyval \<Rightarrow> bool" where
  "Metadata_list_shaped cz v \<longleftrightarrow>
     (case v of
        PList xs \<Rightarrow>
          list_all (\<lambda>x. case x of PDict kwargs \<Rightarrow> \<not> Metadata_at_fault cz kwargs | _ \<Rightarrow> False) xs
      | _ \<Rightarrow> False)"

definition MetadataListResponse_at_fault :: "coercions \<Rightarrow> (string \<times> pyval) list \<Rightarrow> bool" where
  "MetadataListResponse_at_fault cz kwargs \<longleftrightarrow>
     absent_or_not (Metadata_list_shaped cz) kwargs ''doc_metadata'' \<or>
     absent_or_not (bool_shaped cz) kwargs ''built_in_field_enabled''"

text \<open>
  \<open>operation_data\<close> normalised: every mapping has become the \<open>DocumentMetadata\<close> it
  validates to, its \<open>metadata_list\<close> entry by entry in the order given; every instance is
  itself.
\<close>

definition normalised :: "operation_item \<Rightarrow> DocumentMetadata \<Rightarrow> bool" where
  "normalised item d \<longleftrightarrow>
     (case item of
        Instance d' \<Rightarrow> d = d'
      | Mapping kwargs \<Rightarrow>
          (case (map_of kwargs ''document_id'', map_of kwargs ''metadata_list'') of
             (Some (PStr i), Some (PList vs)) \<Rightarrow>
               dm_document_id d = i \<and>
               list_all2 (\<lambda>v m. validate_model MetadataValue_validate v = Some m) vs (dm_metadata_list d)
           | _ \<Rightarrow> False))"

section \<open>Transports and inputs for the examples\<close>

text \<open>
  The errors the docstrings of the client name for the transport, a transport that
  answers every request with one response and one that fails every request (each
  counting the requests it serves), a schema library that converts no float and no
  string, and a session
  in which nothing has been sent.
\<close>

datatype dify_error = DifyNotFoundError | DifyValidationError | DifyAPIError

definition answering :: "pyval \<Rightarrow> (nat, dify_error) BaseClient" where
  "answering response rq s = (Inr response, Suc s)"

definition failing :: "dify_error \<Rightarrow> (nat, dify_error) BaseClient" where
  "failing e rq s = (Inl e, Suc s)"

definition strict :: coercions where
  "strict = \<lparr>int_of_float = (\<lambda>f. None), int_of_str = (\<lambda>s. None),
              bool_of_float = (\<lambda>f. None), bool_of_str = (\<lambda>s. None)\<rparr>"

definition fresh :: "nat session" where
  "fresh = \<lparr>server = 0, calls = []\<rparr>"

section \<open>Lemmas about the transport and the validators\<close>

lemma send_answer:
  "client \<lparr>verb = v, path = p, json = j\<rparr> (server \<sigma>) = (Inr response, s') \<Longrightarrow>
   send client v p j \<sigma> = (Inr response, \<lparr>server = s', calls = calls \<sigma> @ [\<lparr>verb = v, path = p, json = j\<rparr>]\<rparr>)"
  by (simp add: send_def)

lemma KnowledgeTag_validate_SomeD:
  assumes "KnowledgeTag_validate cz kwargs = Some t"
  shows "required validate_str kwargs ''id'' = Some (kt_id t)"
    and "required validate_str kwargs ''name'' = Some (kt_name t)"
    and "optional validate_str kwargs ''color'' = Some (kt_color t)"
    and "optional (validate_int cz) kwargs ''created_at'' = Some (kt_created_at t)"
    and "optional (validate_int cz) kwargs ''updated_at'' = Some (kt_updated_at t)"
    and "optional (validate_int cz) kwargs ''binding_count'' = Some (kt_binding_count t)"
  using assms by (auto simp add: KnowledgeTag_validate_def split: option.splits)

lemma validate_all_list_all2:
  "validate_all val xs = Some ys \<longleftrightarrow> list_all2 (\<lambda>x y. val x = Some y) xs ys"
proof (induction xs arbitrary: ys)
  case Nil
  show ?case by auto
next
  case (Cons x xs)
  show ?case
    by (cases ys) (auto simp add: Cons.IH [symmetric] split: option.splits)
qed

lemma DocumentMetadata_validate_normalised:
  "DocumentMetadata_validate kwargs = Some d \<longleftrightarrow> normalised (Mapping kwargs) d"
proof (cases d)
  case (fields i ms)
  then show ?thesis
    by (auto simp add: DocumentMetadata_validate_def normalised_def required_def validate_str_def
        validate_list_def validate_all_list_all2 [symmetric] split: option.splits pyval.splits)
qed

lemma convert_item_normalised:
  "(case item of Mapping kwargs \<Rightarrow> DocumentMetadata_init kwargs | Instance d' \<Rightarrow> Inr d') = (Inr d :: 'e error + DocumentMetadata)
     \<longleftrightarrow> normalised item d"
proof (cases item)
  case (Mapping kwargs)
  then show ?thesis
    using DocumentMetadata_validate_normalised [of kwargs d]
    by (auto simp add: DocumentMetadata_init_def construct_def split: option.splits)
next
  case (Instance d')
  then show ?thesis by (auto simp add: normalised_def)
qed

lemma convert_normalised:
  "(convert items :: 'e error + DocumentMetadata list) = Inr ds \<longleftrightarrow> list_all2 normalised items ds"
proof (induction items arbitrary: ds)
  case Nil
  then show ?case by auto
next
  case (Cons item items)
  show ?case
  proof (cases ds)
    case Nil
    then show ?thesis by (auto split: sum.splits)
  next
    case (Cons d ds')
    have "(convert (item # items) :: 'e error + DocumentMetadata list) = Inr (d # ds') \<longleftrightarrow>
          (case item of Mapping kwargs \<Rightarrow> DocumentMetadata_init kwargs | Instance d' \<Rightarrow> Inr d') = (Inr d :: 'e error + DocumentMetadata)
          \<and> (convert items :: 'e error + DocumentMetadata list) = Inr ds'"
      by (auto split: sum.splits)
    then show ?thesis
      using Cons Cons.IH [of ds'] convert_item_normalised [of item d, where ?'e = 'e] by simp
  qed
qed

lemma convert_Instance: "convert (map Instance ds) = Inr ds"
  by (induction ds) auto

lemma validate_str_None_iff: "validate_str v = None \<longleftrightarrow> \<not> str_shaped v"
  by (simp add: validate_str_def str_shaped_def split: pyval.splits)

lemma validate_int_None_iff: "validate_int cz v = None \<longleftrightarrow> \<not> int_shaped cz v"
  by (simp add: validate_int_def int_shaped_def split: pyval.splits)

lemma validate_bool_None_iff: "validate_bool cz v = None \<longleftrightarrow> \<not> bool_shaped cz v"
  by (simp add: validate_bool_def bool_shaped_def split: pyval.splits)

lemma required_None_iff:
  assumes "\<And>v. val v = None \<longleftrightarrow> \<not> shaped v"
  shows "required val kwargs k = None \<longleftrightarrow> absent_or_not shaped kwargs k"
  by (simp add: required_def absent_or_not_def assms split: option.splits)

lemma optional_None_iff:
  assumes "\<And>v. val v = None \<longleftrightarrow> \<not> shaped v"
  shows "optional val kwargs k = None \<longleftrightarrow> present_and_not shaped kwargs k"
proof (cases "map_of kwargs k")
  case None
  then show ?thesis by (simp add: optional_def present_and_not_def)
next
  case (Some v)
  have "val v = None \<longleftrightarrow> \<not> shaped v" by (rule assms)
  with Some show ?thesis
    by (cases v; cases "val v") (simp_all add: optional_def present_and_not_def)
qed

lemma KnowledgeTag_validate_None_iff:
  "KnowledgeTag_validate cz kwargs = None \<longleftrightarrow>
     required validate_str kwargs ''id'' = None \<or>
     required validate_str kwargs ''name'' = None \<or>
     optional validate_str kwargs ''color'' = None \<or>
     optional (validate_int cz) kwargs ''created_at'' = None \<or>
     optional (validate_int cz) kwargs ''updated_at'' = None \<or>
     optional (validate_int cz) kwargs ''binding_count'' = None"
  by (simp add: KnowledgeTag_validate_def split: option.splits)

lemma Metadata_validate_None_iff:
  "Metadata_validate cz kwargs = None \<longleftrightarrow>
     required validate_str kwargs ''id'' = None \<or>
     required validate_str kwargs ''type'' = None \<or>
     required validate_str kwargs ''name'' = None \<or>
     optional (validate_int cz) kwargs ''use_count'' = None"
  by (simp add: Metadata_validate_def split: option.splits)

lemma MetadataListResponse_validate_None_iff:
  "MetadataListResponse_validate cz kwargs = None \<longleftrightarrow>
     required (validate_list (validate_model (Metadata_validate cz))) kwargs ''doc_metadata'' = None \<or>
     required (validate_bool cz) kwargs ''built_in_field_enabled'' = None"
  by (simp add: MetadataListResponse_validate_def split: option.splits)

lemma KnowledgeTag_validate_at_fault:
  "KnowledgeTag_validate cz kwargs = None \<longleftrightarrow> KnowledgeTag_at_fault cz kwargs"
  by (simp only: KnowledgeTag_validate_None_iff KnowledgeTag_at_fault_def
      required_None_iff [of validate_str str_shaped, OF validate_str_None_iff]
      optional_None_iff [of validate_str str_shaped, OF validate_str_None_iff]
      optional_None_iff [of "validate_int cz" "int_shaped cz", OF validate_int_None_iff])

lemma Metadata_validate_at_fault:
  "Metadata_validate cz kwargs = None \<longleftrightarrow> Metadata_at_fault cz kwargs"
  by (simp only: Metadata_validate_None_iff Metadata_at_fault_def
      required_None_iff [of validate_str str_shaped, OF validate_str_None_iff]
      optional_None_iff [of "validate_int cz" "int_shaped cz", OF validate_int_None_iff])

lemma validate_all_None_iff:
  "validate_all val xs = None \<longleftrightarrow> \<not> list_all (\<lambda>x. val x \<noteq> None) xs"
  by (induction xs) (auto split: option.splits)

lemma validate_Metadata_list_None_iff:
  "validate_list (validate_model (Metadata_validate cz)) v = None \<longleftrightarrow> \<not> Metadata_list_shaped cz v"
proof -
  have "validate_model (Metadata_validate cz) x \<noteq> None \<longleftrightarrow>
        (case x of PDict kwargs \<Rightarrow> \<not> Metadata_at_fault cz kwargs | _ \<Rightarrow> False)" for x
    by (cases x) (auto simp add: validate_model_def Metadata_validate_at_fault [symmetric])
  then show ?thesis
    by (simp add: validate_list_def Metadata_list_shaped_def validate_all_None_iff split: pyval.splits)
qed

lemma MetadataListResponse_validate_at_fault:
  "MetadataListResponse_validate cz kwargs = None \<longleftrightarrow> MetadataListResponse_at_fault cz kwargs"
  by (simp only: MetadataListResponse_validate_None_iff MetadataListResponse_at_fault_def
      required_None_iff [of "validate_list (validate_model (Metadata_validate cz))" "Metadata_list_shaped cz",
        OF validate_Metadata_list_None_iff]
      required_None_iff [of "validate_bool cz" "bool_shaped cz", OF validate_bool_None_iff])

lemma construct_invalid_iff: "construct r = Inl ValidationError \<longleftrightarrow> r = None"
  by (simp add: construct_def split: option.splits)

lemma construct_cases: "construct r = Inl ValidationError \<or> (\<exists>m. construct r = Inr m)"
  by (simp add: construct_def split: option.splits)

lemma KnowledgeTag_validate_declared:
  assumes "\<forall>k \<in> {''id'', ''name'', ''color'', ''created_at'', ''updated_at'', ''binding_count''}.
             map_of kwargs' k = map_of kwargs k"
  shows "KnowledgeTag_validate cz kwargs' = KnowledgeTag_validate cz kwargs"
  using assms by (simp add: KnowledgeTag_validate_def required_def optional_def)

lemma Metadata_validate_declared:
  assumes "\<forall>k \<in> {''id'', ''type'', ''name'', ''use_count''}. map_of kwargs' k = map_of kwargs k"
  shows "Metadata_validate cz kwargs' = Metadata_validate cz kwargs"
  using assms by (simp add: Metadata_validate_def required_def optional_def)

lemma MetadataListResponse_validate_declared:
  assumes "\<forall>k \<in> {''doc_metadata'', ''built_in_field_enabled''}. map_of kwargs' k = map_of kwargs k"
  shows "MetadataListResponse_validate cz kwargs' = MetadataListResponse_validate cz kwargs"
  using assms by (simp add: MetadataListResponse_validate_def required_def)

lemma MetadataValue_round_trip:
  "validate_model MetadataValue_validate
     (PDict [(''id'', PStr a), (''value'', PStr v), (''name'', PStr n)]) =
   Some \<lparr>mv_id = a, mv_value = v, mv_name = n\<rparr>"
  by (simp add: validate_model_def MetadataValue_validate_def required_def validate_str_def)

lemma MetadataValue_dump_validates:
  "validate_model MetadataValue_validate (MetadataValue_model_dump m) = Some m"
  by (simp add: validate_model_def MetadataValue_validate_def MetadataValue_model_dump_def
      required_def validate_str_def)

lemma validate_all_map:
  "(\<And>x. val (f x) = Some (g x)) \<Longrightarrow> validate_all val (map f xs) = Some (map g xs)"
  by (induction xs) simp_all

section \<open>Every method sends one request\<close>

lemma exactly_one_call_send:
  "exactly_one_call client \<lparr>verb = v, path = p, json = j\<rparr> \<sigma> (send client v p j \<sigma>)"
  by (simp add: exactly_one_call_def send_def Let_def split: prod.splits sum.splits)

lemma exactly_one_call_parse:
  "exactly_one_call client \<lparr>verb = v, path = p, json = j\<rparr> \<sigma>
     (case send client v p j \<sigma> of (Inl e, \<sigma>') \<Rightarrow> (Inl e, \<sigma>') | (Inr response, \<sigma>') \<Rightarrow> (parse response, \<sigma>'))"
  by (simp add: exactly_one_call_def send_def Let_def split: prod.splits sum.splits)

lemma one_call_create:
  "length name \<le> 50 \<Longrightarrow>
   exactly_one_call client \<lparr>verb = POST, path = ''/v1/datasets/tags'', json = Some (PDict [(''name'', PStr name)])\<rparr>
     \<sigma> (TagsClient_create cz client name \<sigma>)"
  using exactly_one_call_parse [of client POST "''/v1/datasets/tags''" "Some (PDict [(''name'', PStr name)])" \<sigma>
      "unpack (KnowledgeTag_init cz)"]
  by (simp add: TagsClient_create_def CreateKnowledgeTagRequest_init_def construct_def
      CreateKnowledgeTagRequest_model_dump_def)

lemma one_call_list:
  "exactly_one_call client \<lparr>verb = GET, path = ''/v1/datasets/tags'', json = None\<rparr>
     \<sigma> (TagsClient_list cz client \<sigma>)"
  unfolding TagsClient_list_def by (rule exactly_one_call_parse)

lemma one_call_update:
  "length name \<le> 50 \<Longrightarrow>
   exactly_one_call client \<lparr>verb = PATCH, path = ''/v1/datasets/tags'',
       json = Some (PDict [(''name'', PStr name), (''tag_id'', PStr tag_id)])\<rparr>
     \<sigma> (TagsClient_update cz client tag_id name \<sigma>)"
  using exactly_one_call_parse [of client PATCH "''/v1/datasets/tags''"
      "Some (PDict [(''name'', PStr name), (''tag_id'', PStr tag_id)])" \<sigma> "unpack (KnowledgeTag_init cz)"]
  by (simp add: TagsClient_update_def UpdateKnowledgeTagRequest_init_def construct_def
      UpdateKnowledgeTagRequest_model_dump_def)

lemma one_call_delete:
  "exactly_one_call client \<lparr>verb = DELETE, path = ''/v1/datasets/tags'', json = Some (PDict [(''tag_id'', PStr tag_id)])\<rparr>
     \<sigma> (TagsClient_delete client tag_id \<sigma>)"
  by (simp add: TagsClient_delete_def DeleteKnowledgeTagRequest_init_def construct_def
      DeleteKnowledgeTagRequest_model_dump_def exactly_one_call_send)

lemma one_call_bind_to_dataset:
  "exactly_one_call client \<lparr>verb = POST, path = ''/v1/datasets/tags/binding'',
       json = Some (PDict [(''tag_ids'', PList (map PStr tag_ids)), (''target_id'', PStr dataset_id)])\<rparr>
     \<sigma> (TagsClient_bind_to_dataset client dataset_id tag_ids \<sigma>)"
  by (simp add: TagsClient_bind_to_dataset_def BindDatasetToTagRequest_init_def construct_def
      BindDatasetToTagRequest_model_dump_def exactly_one_call_send)

lemma one_call_unbind_from_dataset:
  "exactly_one_call client \<lparr>verb = POST, path = ''/v1/datasets/tags/unbinding'',
       json = Some (PDict [(''tag_id'', PStr tag_id), (''target_id'', PStr dataset_id)])\<rparr>
     \<sigma> (TagsClient_unbind_from_dataset client dataset_id tag_id \<sigma>)"
  by (simp add: TagsClient_unbind_from_dataset_def UnbindDatasetFromTagRequest_init_def construct_def
      UnbindDatasetFromTagRequest_model_dump_def exactly_one_call_send)

lemma one_call_get_dataset_tags:
  "exactly_one_call client \<lparr>verb = GET, path = ''/v1/datasets/'' @ dataset_id @ ''/tags'', json = None\<rparr>
     \<sigma> (TagsClient_get_dataset_tags cz client dataset_id \<sigma>)"
  unfolding TagsClient_get_dataset_tags_def by (rule exactly_one_call_parse)

lemma one_call_create_metadata:
  "exactly_one_call client \<lparr>verb = POST, path = ''/v1/datasets/'' @ dataset_id @ ''/metadata'',
       json = Some (PDict [(''type'', PStr field_type), (''name'', PStr name)])\<rparr>
     \<sigma> (TagsClient_create_metadata cz client dataset_id field_type name \<sigma>)"
  using exactly_one_call_parse [of client POST "''/v1/datasets/'' @ dataset_id @ ''/metadata''"
      "Some (PDict [(''type'', PStr field_type), (''name'', PStr name)])" \<sigma> "unpack (Metadata_init cz)"]
  by (simp add: TagsClient_create_metadata_def CreateMetadataRequest_init_def construct_def
      CreateMetadataRequest_model_dump_def)

lemma one_call_update_metadata:
  "exactly_one_call client \<lparr>verb = PATCH, path = ''/v1/datasets/'' @ dataset_id @ ''/metadata/'' @ metadata_id,
       json = Some (PDict [(''name'', PStr name)])\<rparr>
     \<sigma> (TagsClient_update_metadata cz client dataset_id metadata_id name \<sigma>)"
  using exactly_one_call_parse [of client PATCH "''/v1/datasets/'' @ dataset_id @ ''/metadata/'' @ metadata_id"
      "Some (PDict [(''name'', PStr name)])" \<sigma> "unpack (Metadata_init cz)"]
  by (simp add: TagsClient_update_metadata_def UpdateMetadataRequest_init_def construct_def
      UpdateMetadataRequest_model_dump_def)

lemma one_call_delete_metadata:
  "exactly_one_call client \<lparr>verb = DELETE, path = ''/v1/datasets/'' @ dataset_id @ ''/metadata/'' @ metadata_id,
       json = None\<rparr>
     \<sigma> (TagsClient_delete_metadata client dataset_id metadata_id \<sigma>)"
  unfolding TagsClient_delete_metadata_def by (rule exactly_one_call_send)

lemma one_call_toggle_built_in_metadata:
  "exactly_one_call client \<lparr>verb = POST, path = ''/v1/datasets/'' @ dataset_id @ ''/metadata/built-in/'' @ action,
       json = None\<rparr>
     \<sigma> (TagsClient_toggle_built_in_metadata client dataset_id action \<sigma>)"
  unfolding TagsClient_toggle_built_in_metadata_def by (rule exactly_one_call_send)

lemma one_call_update_document_metadata:
  assumes "list_all2 normalised operation_data ds"
  shows "exactly_one_call (client :: ('s, 'e) BaseClient)
     \<lparr>verb = POST, path = ''/v1/datasets/'' @ dataset_id @ ''/documents/metadata'',
       json = Some (PDict [(''operation_data'', PList (map DocumentMetadata_model_dump ds))])\<rparr>
     \<sigma> (TagsClient_update_document_metadata client dataset_id operation_data \<sigma>)"
proof -
  have c: "(convert operation_data :: 'e error + DocumentMetadata list) = Inr ds"
    using assms by (simp add: convert_normalised)
  show ?thesis
    by (simp add: TagsClient_update_document_metadata_def c
        UpdateDocumentMetadataRequest_init_def construct_def UpdateDocumentMetadataRequest_model_dump_def
        exactly_one_call_send)
qed

lemma one_call_list_metadata:
  "exactly_one_call client \<lparr>verb = GET, path = ''/v1/datasets/'' @ dataset_id @ ''/metadata'', json = None\<rparr>
     \<sigma> (TagsClient_list_metadata cz client dataset_id \<sigma>)"
  unfolding TagsClient_list_metadata_def by (rule exactly_one_call_parse)

section \<open>Tag names of at most 50 characters\<close>

text \<open>
  C2: a name of at most 50 characters passes the validation of the create-tag request,
  and \<open>create\<close> then sends it; with a name of 51 characters or more the request cannot
  be constructed, and \<open>create\<close> and \<open>update\<close> raise the validation error with the
  session untouched: no transport call is made.
\<close>

theorem tag_name_length_validation:
  "(length name \<le> 50 \<longrightarrow>
      (CreateKnowledgeTagRequest_init name :: 'e error + CreateKnowledgeTagRequest) = Inr \<lparr>ckt_name = name\<rparr> \<and>
      calls (snd (TagsClient_create cz (client :: ('s, 'e) BaseClient) name \<sigma>)) =
        calls \<sigma> @ [\<lparr>verb = POST, path = ''/v1/datasets/tags'', json = Some (PDict [(''name'', PStr name)])\<rparr>]) \<and>
   (51 \<le> length name \<longrightarrow>
      (CreateKnowledgeTagRequest_init name :: 'e error + CreateKnowledgeTagRequest) = Inl ValidationError \<and>
      TagsClient_create cz client name \<sigma> = (Inl ValidationError, \<sigma>) \<and>
      TagsClient_update cz client tag_id name \<sigma> = (Inl ValidationError, \<sigma>))"
  by (auto simp add: TagsClient_create_def TagsClient_update_def CreateKnowledgeTagRequest_init_def
      UpdateKnowledgeTagRequest_init_def construct_def CreateKnowledgeTagRequest_model_dump_def
      send_def Let_def split: prod.splits sum.splits)

theorem tag_name_length_validation_witness:
  "calls (snd (TagsClient_create strict (answering (PDict [(''id'', PStr ''t1''), (''name'', PStr (replicate 50 CHR ''a''))]))
      (replicate 50 CHR ''a'') fresh)) =
     [\<lparr>verb = POST, path = ''/v1/datasets/tags'', json = Some (PDict [(''name'', PStr (replicate 50 CHR ''a''))])\<rparr>] \<and>
   TagsClient_create strict (answering PNone) (replicate 51 CHR ''a'') fresh = (Inl ValidationError, fresh) \<and>
   TagsClient_update strict (answering PNone) ''t1'' (replicate 51 CHR ''a'') fresh = (Inl ValidationError, fresh)"
  using tag_name_length_validation [of "replicate 50 CHR ''a''" strict "answering (PDict [(''id'', PStr ''t1''), (''name'', PStr (replicate 50 CHR ''a''))])" fresh]
    tag_name_length_validation [of "replicate 51 CHR ''a''" strict "answering PNone" fresh "''t1''"]
  by (simp add: fresh_def)

section \<open>Toggling the built-in metadata\<close>

text \<open>
  C3 does not hold as stated. The action \<open>archive\<close> is neither \<open>enable\<close> nor \<open>disable\<close>, and the call is sent all
  the same: the transport receives the POST and its answer is returned.
\<close>

theorem toggle_action_unchecked_counterexample:
  "''archive'' \<notin> {''enable'', ''disable''} \<and>
   TagsClient_toggle_built_in_metadata (answering (PDict [(''result'', PStr ''success'')])) ''ds1'' ''archive'' fresh =
     (Inr (PDict [(''result'', PStr ''success'')]),
      \<lparr>server = 1, calls = [\<lparr>verb = POST, path = ''/v1/datasets/ds1/metadata/built-in/archive'', json = None\<rparr>]\<rparr>)"
  by (simp add: TagsClient_toggle_built_in_metadata_def send_def answering_def fresh_def)

text \<open>
  C3, as the code has it: for every dataset and every action string, in the set or not,
  \<open>toggle_built_in_metadata\<close> checks nothing locally. It sends one POST to the path that
  ends in the action, without a body, and returns the transport's answer or raises the
  transport's error; an error for an unknown action can only come from the transport.
\<close>

theorem toggle_built_in_metadata_forwards:
  "TagsClient_toggle_built_in_metadata client dataset_id action \<sigma> =
     (case client \<lparr>verb = POST, path = ''/v1/datasets/'' @ dataset_id @ ''/metadata/built-in/'' @ action, json = None\<rparr> (server \<sigma>) of
        (r, s') \<Rightarrow>
          (case r of Inl e \<Rightarrow> Inl (Raised e) | Inr response \<Rightarrow> Inr response,
           \<lparr>server = s', calls = calls \<sigma> @ [\<lparr>verb = POST, path = ''/v1/datasets/'' @ dataset_id @ ''/metadata/built-in/'' @ action, json = None\<rparr>]\<rparr>))"
  by (simp add: TagsClient_toggle_built_in_metadata_def send_def Let_def)

section \<open>Binding a dataset to tags\<close>

text \<open>
  C4 does not hold as stated. With the empty list of tag ids the request is constructed and sent: the transport
  receives the POST with \<open>tag_ids = []\<close>.
\<close>

theorem bind_empty_tag_ids_counterexample:
  "TagsClient_bind_to_dataset (answering (PDict [(''result'', PStr ''success'')])) ''ds1'' [] fresh =
     (Inr (PDict [(''result'', PStr ''success'')]),
      \<lparr>server = 1, calls = [\<lparr>verb = POST, path = ''/v1/datasets/tags/binding'',
          json = Some (PDict [(''tag_ids'', PList []), (''target_id'', PStr ''ds1'')])\<rparr>]\<rparr>)"
  by (simp add: TagsClient_bind_to_dataset_def BindDatasetToTagRequest_init_def construct_def
      BindDatasetToTagRequest_model_dump_def send_def answering_def fresh_def)

text \<open>
  C4, as the code has it: for every dataset id and every list of tag ids, empty or not,
  the bind request passes validation, and \<open>bind_to_dataset\<close> sends one POST to
  \<open>/v1/datasets/tags/binding\<close> with the body \<open>{tag_ids, target_id}\<close> and returns the
  transport's answer or raises the transport's error.
\<close>

theorem bind_to_dataset_forwards:
  "(BindDatasetToTagRequest_init tag_ids dataset_id :: 'e error + BindDatasetToTagRequest) =
     Inr \<lparr>bind_tag_ids = tag_ids, bind_target_id = dataset_id\<rparr> \<and>
   TagsClient_bind_to_dataset (client :: ('s, 'e) BaseClient) dataset_id tag_ids \<sigma> =
     (case client \<lparr>verb = POST, path = ''/v1/datasets/tags/binding'',
                    json = Some (PDict [(''tag_ids'', PList (map PStr tag_ids)), (''target_id'', PStr dataset_id)])\<rparr> (server \<sigma>) of
        (r, s') \<Rightarrow>
          (case r of Inl e \<Rightarrow> Inl (Raised e) | Inr response \<Rightarrow> Inr response,
           \<lparr>server = s', calls = calls \<sigma> @ [\<lparr>verb = POST, path = ''/v1/datasets/tags/binding'',
                    json = Some (PDict [(''tag_ids'', PList (map PStr tag_ids)), (''target_id'', PStr dataset_id)])\<rparr>]\<rparr>))"
  by (simp add: TagsClient_bind_to_dataset_def BindDatasetToTagRequest_init_def construct_def
      BindDatasetToTagRequest_model_dump_def send_def Let_def)

section \<open>Document metadata\<close>

text \<open>
  C6: for every document id \<open>i\<close> and every list \<open>ts\<close> of (id, value, name) triples, the
  raw mapping \<open>{"document_id": i, "metadata_list": [{"id", "value", "name"}, ...]}\<close>
  constructs a \<open>DocumentMetadata\<close>, and dumping that object gives the mapping back; the
  other way round, the dump of any \<open>DocumentMetadata\<close> constructs that object again. In
  particular the mapping of the specification's example
  \<open>{"document_id": "d1", "metadata_list": [{"id": "m1", "value": "v1", "name": "f1"}]}\<close>
  makes the round trip.
\<close>

theorem DocumentMetadata_round_trip:
  "DocumentMetadata_init
     [(''document_id'', PStr i),
      (''metadata_list'', PList (map (\<lambda>(a, v, n). PDict [(''id'', PStr a), (''value'', PStr v), (''name'', PStr n)]) ts))]
   = Inr \<lparr>dm_document_id = i,
          dm_metadata_list = map (\<lambda>(a, v, n). \<lparr>mv_id = a, mv_value = v, mv_name = n\<rparr>) ts\<rparr>
   \<and> DocumentMetadata_model_dump
       \<lparr>dm_document_id = i,
        dm_metadata_list = map (\<lambda>(a, v, n). \<lparr>mv_id = a, mv_value = v, mv_name = n\<rparr>) ts\<rparr>
   = PDict [(''document_id'', PStr i),
      (''metadata_list'', PList (map (\<lambda>(a, v, n). PDict [(''id'', PStr a), (''value'', PStr v), (''name'', PStr n)]) ts))]
   \<and> unpack DocumentMetadata_init (DocumentMetadata_model_dump d) = Inr d
   \<and> DocumentMetadata_init
     [(''document_id'', PStr ''d1''),
      (''metadata_list'', PList [PDict [(''id'', PStr ''m1''), (''value'', PStr ''v1''), (''name'', PStr ''f1'')]])]
   = Inr \<lparr>dm_document_id = ''d1'', dm_metadata_list = [\<lparr>mv_id = ''m1'', mv_value = ''v1'', mv_name = ''f1''\<rparr>]\<rparr>
   \<and> DocumentMetadata_model_dump
       \<lparr>dm_document_id = ''d1'', dm_metadata_list = [\<lparr>mv_id = ''m1'', mv_value = ''v1'', mv_name = ''f1''\<rparr>]\<rparr>
   = PDict [(''document_id'', PStr ''d1''),
      (''metadata_list'', PList [PDict [(''id'', PStr ''m1''), (''value'', PStr ''v1''), (''name'', PStr ''f1'')]])]"
proof -
  let ?raw = "\<lambda>(a, v, n). PDict [(''id'', PStr a), (''value'', PStr v), (''name'', PStr n)]"
  let ?obj = "\<lambda>(a, v, n). \<lparr>mv_id = a, mv_value = v, mv_name = n\<rparr>"
  have "validate_model MetadataValue_validate (?raw t) = Some (?obj t)" for t
    by (cases t) (simp add: MetadataValue_round_trip)
  then have entries: "validate_all (validate_model MetadataValue_validate) (map ?raw ts) = Some (map ?obj ts)" for ts
    by (rule validate_all_map)
  have parse: "DocumentMetadata_init [(''document_id'', PStr i), (''metadata_list'', PList (map ?raw ts))]
      = Inr \<lparr>dm_document_id = i, dm_metadata_list = map ?obj ts\<rparr>" for i ts
    by (simp add: DocumentMetadata_init_def DocumentMetadata_validate_def construct_def required_def
        validate_str_def validate_list_def entries)
  have "MetadataValue_model_dump (?obj t) = ?raw t" for t
    by (cases t) (simp add: MetadataValue_model_dump_def)
  then have dump: "DocumentMetadata_model_dump \<lparr>dm_document_id = i, dm_metadata_list = map ?obj ts\<rparr>
      = PDict [(''document_id'', PStr i), (''metadata_list'', PList (map ?raw ts))]" for i ts
    by (simp add: DocumentMetadata_model_dump_def)
  have "validate_all (validate_model MetadataValue_validate) (map MetadataValue_model_dump ms) = Some (map (\<lambda>m. m) ms)" for ms
    by (rule validate_all_map) (rule MetadataValue_dump_validates)
  then have rebuilt: "unpack DocumentMetadata_init (DocumentMetadata_model_dump d) = Inr d"
    by (cases d)
      (simp add: unpack_def DocumentMetadata_model_dump_def DocumentMetadata_init_def
        DocumentMetadata_validate_def construct_def required_def validate_str_def validate_list_def)
  show ?thesis
    using parse [of i ts] dump [of i ts] rebuilt
      parse [of "''d1''" "[(''m1'', ''v1'', ''f1'')]"] dump [of "''d1''" "[(''m1'', ''v1'', ''f1'')]"]
    by simp
qed

text \<open>
  C5: when \<open>ds\<close> is the normalisation of a list of mappings and instances (each mapping
  validated, each instance kept, in the order given and with every \<open>metadata_list\<close> in
  its order), \<open>update_document_metadata\<close> behaves on the mixed list as it does on the
  instances \<open>ds\<close>, and sends one payload: the dumps of \<open>ds\<close>, in order, under
  \<open>operation_data\<close>.
\<close>

theorem update_document_metadata_normalises:
  "list_all2 normalised operation_data ds \<longrightarrow>
     TagsClient_update_document_metadata client dataset_id operation_data \<sigma> =
       TagsClient_update_document_metadata client dataset_id (map Instance ds) \<sigma> \<and>
     calls (snd (TagsClient_update_document_metadata client dataset_id operation_data \<sigma>)) =
       calls \<sigma> @ [\<lparr>verb = POST, path = ''/v1/datasets/'' @ dataset_id @ ''/documents/metadata'',
                     json = Some (PDict [(''operation_data'', PList (map DocumentMetadata_model_dump ds))])\<rparr>]"
proof
  assume "list_all2 normalised operation_data ds"
  then have c: "(convert operation_data :: 'e error + DocumentMetadata list) = Inr ds"
    by (simp add: convert_normalised)
  show "TagsClient_update_document_metadata client dataset_id operation_data \<sigma> =
       TagsClient_update_document_metadata client dataset_id (map Instance ds) \<sigma> \<and>
     calls (snd (TagsClient_update_document_metadata client dataset_id operation_data \<sigma>)) =
       calls \<sigma> @ [\<lparr>verb = POST, path = ''/v1/datasets/'' @ dataset_id @ ''/documents/metadata'',
                     json = Some (PDict [(''operation_data'', PList (map DocumentMetadata_model_dump ds))])\<rparr>]"
    by (simp add: TagsClient_update_document_metadata_def c convert_Instance
        UpdateDocumentMetadataRequest_init_def construct_def
        UpdateDocumentMetadataRequest_model_dump_def send_def Let_def split: prod.splits)
qed

theorem update_document_metadata_normalises_witness:
  "calls (snd (TagsClient_update_document_metadata (answering (PDict [])) ''ds1''
      [Mapping [(''document_id'', PStr ''d1''),
                (''metadata_list'', PList [PDict [(''id'', PStr ''m1''), (''value'', PStr ''v1''), (''name'', PStr ''f1'')],
                                           PDict [(''id'', PStr ''m2''), (''value'', PStr ''v2''), (''name'', PStr ''f2'')]])],
       Instance \<lparr>dm_document_id = ''d2'', dm_metadata_list = [\<lparr>mv_id = ''m3'', mv_value = ''v3'', mv_name = ''f3''\<rparr>]\<rparr>]
      fresh)) =
   [\<lparr>verb = POST, path = ''/v1/datasets/ds1/documents/metadata'',
     json = Some (PDict [(''operation_data'', PList
       [PDict [(''document_id'', PStr ''d1''),
               (''metadata_list'', PList [PDict [(''id'', PStr ''m1''), (''value'', PStr ''v1''), (''name'', PStr ''f1'')],
                                          PDict [(''id'', PStr ''m2''), (''value'', PStr ''v2''), (''name'', PStr ''f2'')]])],
        PDict [(''document_id'', PStr ''d2''),
               (''metadata_list'', PList [PDict [(''id'', PStr ''m3''), (''value'', PStr ''v3''), (''name'', PStr ''f3'')]])]])])\<rparr>]"
proof -
  let ?items = "[Mapping [(''document_id'', PStr ''d1''),
                (''metadata_list'', PList [PDict [(''id'', PStr ''m1''), (''value'', PStr ''v1''), (''name'', PStr ''f1'')],
                                           PDict [(''id'', PStr ''m2''), (''value'', PStr ''v2''), (''name'', PStr ''f2'')]])],
       Instance \<lparr>dm_document_id = ''d2'', dm_metadata_list = [\<lparr>mv_id = ''m3'', mv_value = ''v3'', mv_name = ''f3''\<rparr>]\<rparr>]"
  let ?ds = "[\<lparr>dm_document_id = ''d1'', dm_metadata_list = [\<lparr>mv_id = ''m1'', mv_value = ''v1'', mv_name = ''f1''\<rparr>,
                    \<lparr>mv_id = ''m2'', mv_value = ''v2'', mv_name = ''f2''\<rparr>]\<rparr>,
                 \<lparr>dm_document_id = ''d2'', dm_metadata_list = [\<lparr>mv_id = ''m3'', mv_value = ''v3'', mv_name = ''f3''\<rparr>]\<rparr>]"
  have n: "list_all2 normalised ?items ?ds"
    by (simp add: normalised_def validate_model_def MetadataValue_validate_def required_def validate_str_def)
  have "calls (snd (TagsClient_update_document_metadata (answering (PDict [])) ''ds1'' ?items fresh)) =
       calls fresh @ [\<lparr>verb = POST, path = ''/v1/datasets/'' @ ''ds1'' @ ''/documents/metadata'',
                     json = Some (PDict [(''operation_data'', PList (map DocumentMetadata_model_dump ?ds))])\<rparr>]"
    using update_document_metadata_normalises [where operation_data = ?items and ds = ?ds
        and client = "answering (PDict [])" and dataset_id = "''ds1''" and \<sigma> = fresh] n
    by blast
  then show ?thesis
    by (simp add: DocumentMetadata_model_dump_def MetadataValue_model_dump_def fresh_def)
qed

section \<open>The created tag\<close>

text \<open>
  C8: when the transport answers the create request for \<open>Research\<close> with
  \<open>{"id": "t1", "name": "Research"}\<close>, the result is the tag with that id and name and
  with \<open>None\<close> in every optional field; and in any parsed tag an optional field whose
  key the response lacks is \<open>None\<close>, which no value \<open>Some v\<close> of the field equals.
\<close>

theorem create_Research:
  "(client \<lparr>verb = POST, path = ''/v1/datasets/tags'', json = Some (PDict [(''name'', PStr ''Research'')])\<rparr> (server \<sigma>)
      = (Inr (PDict [(''id'', PStr ''t1''), (''name'', PStr ''Research'')]), s') \<longrightarrow>
    fst (TagsClient_create cz client ''Research'' \<sigma>) =
      Inr \<lparr>kt_id = ''t1'', kt_name = ''Research'', kt_color = None, kt_created_at = None,
           kt_updated_at = None, kt_binding_count = None\<rparr>) \<and>
   (KnowledgeTag_validate cz kwargs = Some t \<longrightarrow>
      (map_of kwargs ''color'' = None \<longrightarrow> kt_color t = None) \<and>
      (map_of kwargs ''created_at'' = None \<longrightarrow> kt_created_at t = None) \<and>
      (map_of kwargs ''updated_at'' = None \<longrightarrow> kt_updated_at t = None) \<and>
      (map_of kwargs ''binding_count'' = None \<longrightarrow> kt_binding_count t = None))"
proof -
  have "fst (TagsClient_create cz client ''Research'' \<sigma>) =
      Inr \<lparr>kt_id = ''t1'', kt_name = ''Research'', kt_color = None, kt_created_at = None,
           kt_updated_at = None, kt_binding_count = None\<rparr>"
    if "client \<lparr>verb = POST, path = ''/v1/datasets/tags'', json = Some (PDict [(''name'', PStr ''Research'')])\<rparr> (server \<sigma>)
      = (Inr (PDict [(''id'', PStr ''t1''), (''name'', PStr ''Research'')]), s')"
    using that
    by (simp add: TagsClient_create_def CreateKnowledgeTagRequest_init_def construct_def
        CreateKnowledgeTagRequest_model_dump_def send_answer unpack_def KnowledgeTag_init_def
        KnowledgeTag_validate_def required_def optional_def validate_str_def)
  moreover have "kt_color t = None" if "KnowledgeTag_validate cz kwargs = Some t" "map_of kwargs ''color'' = None"
    using KnowledgeTag_validate_SomeD(3) [OF that(1)] that(2) by (simp add: optional_def)
  moreover have "kt_created_at t = None" if "KnowledgeTag_validate cz kwargs = Some t" "map_of kwargs ''created_at'' = None"
    using KnowledgeTag_validate_SomeD(4) [OF that(1)] that(2) by (simp add: optional_def)
  moreover have "kt_updated_at t = None" if "KnowledgeTag_validate cz kwargs = Some t" "map_of kwargs ''updated_at'' = None"
    using KnowledgeTag_validate_SomeD(5) [OF that(1)] that(2) by (simp add: optional_def)
  moreover have "kt_binding_count t = None" if "KnowledgeTag_validate cz kwargs = Some t" "map_of kwargs ''binding_count'' = None"
    using KnowledgeTag_validate_SomeD(6) [OF that(1)] that(2) by (simp add: optional_def)
  ultimately show ?thesis by blast
qed

theorem create_Research_witness:
  "fst (TagsClient_create strict (answering (PDict [(''id'', PStr ''t1''), (''name'', PStr ''Research'')])) ''Research'' fresh) =
      Inr \<lparr>kt_id = ''t1'', kt_name = ''Research'', kt_color = None, kt_created_at = None,
           kt_updated_at = None, kt_binding_count = None\<rparr> \<and>
   KnowledgeTag_validate strict [(''id'', PStr ''t2''), (''name'', PStr ''Law''), (''binding_count'', PInt 3)] =
      Some \<lparr>kt_id = ''t2'', kt_name = ''Law'', kt_color = None, kt_created_at = None,
           kt_updated_at = None, kt_binding_count = Some 3\<rparr>"
  using create_Research [of "answering (PDict [(''id'', PStr ''t1''), (''name'', PStr ''Research'')])" fresh 1 strict
      "[(''id'', PStr ''t2''), (''name'', PStr ''Law''), (''binding_count'', PInt 3)]"
      "\<lparr>kt_id = ''t2'', kt_name = ''Law'', kt_color = None, kt_created_at = None,
           kt_updated_at = None, kt_binding_count = Some 3\<rparr>"]
  by (simp add: answering_def fresh_def KnowledgeTag_validate_def required_def optional_def
      validate_str_def validate_int_def)

section \<open>The two envelopes of a tag list\<close>

text \<open>
  C1: let one transport answer the GET with the bare list \<open>tags\<close> and another with a
  mapping whose \<open>data\<close> entry is that list. Then \<open>list\<close> returns the same on both, value
  or error and session alike, namely the tags parsed one by one in order; and so does
  \<open>get_dataset_tags\<close> for every dataset.
\<close>

theorem tags_envelope_independent:
  assumes "map_of d ''data'' = Some (PList tags)"
  shows "(client \<lparr>verb = GET, path = ''/v1/datasets/tags'', json = None\<rparr> (server \<sigma>) = (Inr (PList tags), s') \<longrightarrow>
          client' \<lparr>verb = GET, path = ''/v1/datasets/tags'', json = None\<rparr> (server \<sigma>) = (Inr (PDict d), s') \<longrightarrow>
            TagsClient_list cz client \<sigma> = TagsClient_list cz client' \<sigma> \<and>
            fst (TagsClient_list cz client' \<sigma>) = comprehension (unpack (KnowledgeTag_init cz)) tags) \<and>
         (client \<lparr>verb = GET, path = ''/v1/datasets/'' @ dataset_id @ ''/tags'', json = None\<rparr> (server \<sigma>) = (Inr (PList tags), s') \<longrightarrow>
          client' \<lparr>verb = GET, path = ''/v1/datasets/'' @ dataset_id @ ''/tags'', json = None\<rparr> (server \<sigma>) = (Inr (PDict d), s') \<longrightarrow>
            TagsClient_get_dataset_tags cz client dataset_id \<sigma> = TagsClient_get_dataset_tags cz client' dataset_id \<sigma> \<and>
            fst (TagsClient_get_dataset_tags cz client' dataset_id \<sigma>) = comprehension (unpack (KnowledgeTag_init cz)) tags)"
  using assms
  by (simp add: TagsClient_list_def TagsClient_get_dataset_tags_def send_answer py_get_def py_iter_def)

theorem tags_envelope_independent_witness:
  "TagsClient_list strict (answering (PList [PDict [(''id'', PStr ''t1''), (''name'', PStr ''Research'')],
                                             PDict [(''id'', PStr ''t2''), (''name'', PStr ''Law''), (''binding_count'', PInt 3)]])) fresh =
   TagsClient_list strict (answering (PDict [(''data'', PList [PDict [(''id'', PStr ''t1''), (''name'', PStr ''Research'')],
                                             PDict [(''id'', PStr ''t2''), (''name'', PStr ''Law''), (''binding_count'', PInt 3)]])])) fresh \<and>
   fst (TagsClient_list strict (answering (PDict [(''data'', PList [PDict [(''id'', PStr ''t1''), (''name'', PStr ''Research'')],
                                             PDict [(''id'', PStr ''t2''), (''name'', PStr ''Law''), (''binding_count'', PInt 3)]])])) fresh) =
     Inr [\<lparr>kt_id = ''t1'', kt_name = ''Research'', kt_color = None, kt_created_at = None,
           kt_updated_at = None, kt_binding_count = None\<rparr>,
          \<lparr>kt_id = ''t2'', kt_name = ''Law'', kt_color = None, kt_created_at = None,
           kt_updated_at = None, kt_binding_count = Some 3\<rparr>] \<and>
   TagsClient_get_dataset_tags strict (answering (PList [PDict [(''id'', PStr ''t1''), (''name'', PStr ''Research'')],
                                             PDict [(''id'', PStr ''t2''), (''name'', PStr ''Law''), (''binding_count'', PInt 3)]])) ''ds1'' fresh =
   TagsClient_get_dataset_tags strict (answering (PDict [(''data'', PList [PDict [(''id'', PStr ''t1''), (''name'', PStr ''Research'')],
                                             PDict [(''id'', PStr ''t2''), (''name'', PStr ''Law''), (''binding_count'', PInt 3)]])])) ''ds1'' fresh"
proof -
  let ?tags = "[PDict [(''id'', PStr ''t1''), (''name'', PStr ''Research'')],
                PDict [(''id'', PStr ''t2''), (''name'', PStr ''Law''), (''binding_count'', PInt 3)]]"
  have d: "map_of [(''data'', PList ?tags)] ''data'' = Some (PList ?tags)" by simp
  have a: "answering (PList ?tags) rq (server fresh) = (Inr (PList ?tags), 1)"
    and b: "answering (PDict [(''data'', PList ?tags)]) rq (server fresh) = (Inr (PDict [(''data'', PList ?tags)]), 1)" for rq
    by (simp_all add: answering_def fresh_def)
  have c: "comprehension (unpack (KnowledgeTag_init strict)) ?tags =
     (Inr [\<lparr>kt_id = ''t1'', kt_name = ''Research'', kt_color = None, kt_created_at = None,
           kt_updated_at = None, kt_binding_count = None\<rparr>,
          \<lparr>kt_id = ''t2'', kt_name = ''Law'', kt_color = None, kt_created_at = None,
           kt_updated_at = None, kt_binding_count = Some 3\<rparr>] :: dify_error error + KnowledgeTag list)"
    by (simp add: unpack_def KnowledgeTag_init_def KnowledgeTag_validate_def construct_def required_def
        optional_def validate_str_def validate_int_def)
  show ?thesis
    using tags_envelope_independent [OF d, where client = "answering (PList ?tags)"
        and client' = "answering (PDict [(''data'', PList ?tags)])" and \<sigma> = fresh and s' = 1
        and cz = strict and dataset_id = "''ds1''"] a b c
    by simp
qed

text \<open>
  C10: when the transport answers the GET with a mapping that has no \<open>data\<close> key,
  \<open>list\<close> and \<open>get_dataset_tags\<close> return the empty list, after that one call.
\<close>

theorem tags_envelope_without_data:
  assumes "map_of d ''data'' = None"
  shows "(client \<lparr>verb = GET, path = ''/v1/datasets/tags'', json = None\<rparr> (server \<sigma>) = (Inr (PDict d), s') \<longrightarrow>
            TagsClient_list cz client \<sigma> =
              (Inr [], \<lparr>server = s', calls = calls \<sigma> @ [\<lparr>verb = GET, path = ''/v1/datasets/tags'', json = None\<rparr>]\<rparr>)) \<and>
         (client \<lparr>verb = GET, path = ''/v1/datasets/'' @ dataset_id @ ''/tags'', json = None\<rparr> (server \<sigma>) = (Inr (PDict d), s') \<longrightarrow>
            TagsClient_get_dataset_tags cz client dataset_id \<sigma> =
              (Inr [], \<lparr>server = s', calls = calls \<sigma> @ [\<lparr>verb = GET, path = ''/v1/datasets/'' @ dataset_id @ ''/tags'', json = None\<rparr>]\<rparr>))"
  using assms
  by (simp add: TagsClient_list_def TagsClient_get_dataset_tags_def send_answer py_get_def py_iter_def)

theorem tags_envelope_without_data_witness:
  "fst (TagsClient_list strict (answering (PDict [])) fresh) = Inr [] \<and>
   fst (TagsClient_get_dataset_tags strict (answering (PDict [(''total'', PInt 0)])) ''ds1'' fresh) = Inr []"
  using tags_envelope_without_data [where d = "[]" and client = "answering (PDict [])" and \<sigma> = fresh and s' = 1
      and cz = strict]
    tags_envelope_without_data [where d = "[(''total'', PInt 0)]" and client = "answering (PDict [(''total'', PInt 0)])"
      and \<sigma> = fresh and s' = 1 and cz = strict and dataset_id = "''ds1''"]
  by (simp add: answering_def fresh_def)

section \<open>Parsing a response mapping\<close>

text \<open>
  C7 does not hold as stated. A mapping whose required fields are both present and
  strings, and whose optional \<open>color\<close> is a list: the construction fails.
\<close>

theorem optional_field_misshapen_counterexample:
  "map_of [(''id'', PStr ''t1''), (''name'', PStr ''Research''), (''color'', PList [PStr ''red''])] ''id'' = Some (PStr ''t1'') \<and>
   map_of [(''id'', PStr ''t1''), (''name'', PStr ''Research''), (''color'', PList [PStr ''red''])] ''name'' = Some (PStr ''Research'') \<and>
   (KnowledgeTag_init strict [(''id'', PStr ''t1''), (''name'', PStr ''Research''), (''color'', PList [PStr ''red''])]
      :: dify_error error + KnowledgeTag) = Inl ValidationError"
  by (simp add: KnowledgeTag_init_def KnowledgeTag_validate_def construct_def required_def optional_def
      validate_str_def)

text \<open>
  C7, as the code has it: parsing a mapping into a response schema (\<open>KnowledgeTag\<close>,
  \<open>Metadata\<close>, \<open>MetadataListResponse\<close>) looks at the declared keys only, so two mappings
  that agree on them parse alike, whatever else they hold; it fails with a validation
  error exactly when the mapping is at fault, and gives an object otherwise. At fault
  means: a required field is absent or not of its shape, or an optional field is
  present, not \<open>None\<close>, and not of its shape. The shapes are those written out above: a
  string for \<open>id\<close>, \<open>name\<close>, \<open>type\<close> and \<open>color\<close>; for the integer fields an integer,
  a boolean, or a float or string that the schema library converts to an integer; for
  \<open>built_in_field_enabled\<close> a boolean, \<open>0\<close>, \<open>1\<close>, or a float or string that the library
  converts to a boolean; for \<open>doc_metadata\<close> a list of mappings none of which is at
  fault for \<open>Metadata\<close>.
\<close>

theorem response_parsing:
  "((\<forall>k \<in> {''id'', ''name'', ''color'', ''created_at'', ''updated_at'', ''binding_count''}.
        map_of kwargs' k = map_of kwargs k) \<longrightarrow>
      (KnowledgeTag_init cz kwargs' :: 'e error + KnowledgeTag) = KnowledgeTag_init cz kwargs) \<and>
   ((KnowledgeTag_init cz kwargs :: 'e error + KnowledgeTag) = Inl ValidationError \<longleftrightarrow>
      KnowledgeTag_at_fault cz kwargs) \<and>
   ((\<exists>t. (KnowledgeTag_init cz kwargs :: 'e error + KnowledgeTag) = Inr t) \<longleftrightarrow>
      \<not> KnowledgeTag_at_fault cz kwargs) \<and>
   ((\<forall>k \<in> {''id'', ''type'', ''name'', ''use_count''}. map_of kwargs' k = map_of kwargs k) \<longrightarrow>
      (Metadata_init cz kwargs' :: 'e error + Metadata) = Metadata_init cz kwargs) \<and>
   ((Metadata_init cz kwargs :: 'e error + Metadata) = Inl ValidationError \<longleftrightarrow>
      Metadata_at_fault cz kwargs) \<and>
   ((\<exists>m. (Metadata_init cz kwargs :: 'e error + Metadata) = Inr m) \<longleftrightarrow>
      \<not> Metadata_at_fault cz kwargs) \<and>
   ((\<forall>k \<in> {''doc_metadata'', ''built_in_field_enabled''}. map_of kwargs' k = map_of kwargs k) \<longrightarrow>
      (MetadataListResponse_init cz kwargs' :: 'e error + MetadataListResponse) =
        MetadataListResponse_init cz kwargs) \<and>
   ((MetadataListResponse_init cz kwargs :: 'e error + MetadataListResponse) = Inl ValidationError \<longleftrightarrow>
      MetadataListResponse_at_fault cz kwargs) \<and>
   ((\<exists>r. (MetadataListResponse_init cz kwargs :: 'e error + MetadataListResponse) = Inr r) \<longleftrightarrow>
      \<not> MetadataListResponse_at_fault cz kwargs)"
proof -
  have "(KnowledgeTag_init cz kwargs' :: 'e error + KnowledgeTag) = KnowledgeTag_init cz kwargs"
    if "\<forall>k \<in> {''id'', ''name'', ''color'', ''created_at'', ''updated_at'', ''binding_count''}.
        map_of kwargs' k = map_of kwargs k"
    using KnowledgeTag_validate_declared [OF that] by (simp add: KnowledgeTag_init_def)
  moreover have k: "(KnowledgeTag_init cz kwargs :: 'e error + KnowledgeTag) = Inl ValidationError \<longleftrightarrow>
      KnowledgeTag_at_fault cz kwargs"
    by (simp only: KnowledgeTag_init_def construct_invalid_iff KnowledgeTag_validate_at_fault)
  moreover have "(\<exists>t. (KnowledgeTag_init cz kwargs :: 'e error + KnowledgeTag) = Inr t) \<longleftrightarrow>
      \<not> KnowledgeTag_at_fault cz kwargs"
    using k construct_cases [of "KnowledgeTag_validate cz kwargs", where ?'a = 'e]
    by (auto simp add: KnowledgeTag_init_def)
  moreover have "(Metadata_init cz kwargs' :: 'e error + Metadata) = Metadata_init cz kwargs"
    if "\<forall>k \<in> {''id'', ''type'', ''name'', ''use_count''}. map_of kwargs' k = map_of kwargs k"
    using Metadata_validate_declared [OF that] by (simp add: Metadata_init_def)
  moreover have m: "(Metadata_init cz kwargs :: 'e error + Metadata) = Inl ValidationError \<longleftrightarrow>
      Metadata_at_fault cz kwargs"
    by (simp only: Metadata_init_def construct_invalid_iff Metadata_validate_at_fault)
  moreover have "(\<exists>t. (Metadata_init cz kwargs :: 'e error + Metadata) = Inr t) \<longleftrightarrow>
      \<not> Metadata_at_fault cz kwargs"
    using m construct_cases [of "Metadata_validate cz kwargs", where ?'a = 'e]
    by (auto simp add: Metadata_init_def)
  moreover have "(MetadataListResponse_init cz kwargs' :: 'e error + MetadataListResponse) =
        MetadataListResponse_init cz kwargs"
    if "\<forall>k \<in> {''doc_metadata'', ''built_in_field_enabled''}. map_of kwargs' k = map_of kwargs k"
    using MetadataListResponse_validate_declared [OF that] by (simp add: MetadataListResponse_init_def)
  moreover have r: "(MetadataListResponse_init cz kwargs :: 'e error + MetadataListResponse) = Inl ValidationError \<longleftrightarrow>
      MetadataListResponse_at_fault cz kwargs"
    by (simp only: MetadataListResponse_init_def construct_invalid_iff MetadataListResponse_validate_at_fault)
  moreover have "(\<exists>t. (MetadataListResponse_init cz kwargs :: 'e error + MetadataListResponse) = Inr t) \<longleftrightarrow>
      \<not> MetadataListResponse_at_fault cz kwargs"
    using r construct_cases [of "MetadataListResponse_validate cz kwargs", where ?'a = 'e]
    by (auto simp add: MetadataListResponse_init_def)
  ultimately show ?thesis by blast
qed

theorem response_parsing_witness:
  "(KnowledgeTag_init strict [(''tenant'', PInt 4), (''id'', PStr ''t1''), (''name'', PStr ''Research'')]
      :: dify_error error + KnowledgeTag) =
     Inr \<lparr>kt_id = ''t1'', kt_name = ''Research'', kt_color = None, kt_created_at = None,
          kt_updated_at = None, kt_binding_count = None\<rparr> \<and>
   (Metadata_init strict [(''id'', PStr ''m1''), (''type'', PStr ''string''), (''name'', PStr ''source''), (''hidden'', PBool True)]
      :: dify_error error + Metadata) =
     Inr \<lparr>md_id = ''m1'', md_type = ''string'', md_name = ''source'', md_use_count = None\<rparr> \<and>
   (MetadataListResponse_init strict
       [(''doc_metadata'', PList [PDict [(''id'', PStr ''m1''), (''type'', PStr ''string''), (''name'', PStr ''source'')]]),
        (''built_in_field_enabled'', PBool True), (''page'', PInt 1)]
      :: dify_error error + MetadataListResponse) =
     Inr \<lparr>mlr_doc_metadata = [\<lparr>md_id = ''m1'', md_type = ''string'', md_name = ''source'', md_use_count = None\<rparr>],
          mlr_built_in_field_enabled = True\<rparr> \<and>
   (MetadataListResponse_init strict [(''doc_metadata'', PList [PStr ''m1'']), (''built_in_field_enabled'', PBool True)]
      :: dify_error error + MetadataListResponse) = Inl ValidationError"
proof -
  have k: "(KnowledgeTag_init strict [(''id'', PStr ''t1''), (''name'', PStr ''Research'')]
      :: dify_error error + KnowledgeTag) =
     Inr \<lparr>kt_id = ''t1'', kt_name = ''Research'', kt_color = None, kt_created_at = None,
          kt_updated_at = None, kt_binding_count = None\<rparr>"
    by (simp add: KnowledgeTag_init_def KnowledgeTag_validate_def construct_def required_def optional_def
        validate_str_def)
  have m: "(Metadata_init strict [(''id'', PStr ''m1''), (''type'', PStr ''string''), (''name'', PStr ''source'')]
      :: dify_error error + Metadata) =
     Inr \<lparr>md_id = ''m1'', md_type = ''string'', md_name = ''source'', md_use_count = None\<rparr>"
    by (simp add: Metadata_init_def Metadata_validate_def construct_def required_def optional_def
        validate_str_def)
  have r: "(MetadataListResponse_init strict
       [(''doc_metadata'', PList [PDict [(''id'', PStr ''m1''), (''type'', PStr ''string''), (''name'', PStr ''source'')]]),
        (''built_in_field_enabled'', PBool True)]
      :: dify_error error + MetadataListResponse) =
     Inr \<lparr>mlr_doc_metadata = [\<lparr>md_id = ''m1'', md_type = ''string'', md_name = ''source'', md_use_count = None\<rparr>],
          mlr_built_in_field_enabled = True\<rparr>"
    by (simp add: MetadataListResponse_init_def MetadataListResponse_validate_def construct_def required_def
        validate_list_def validate_model_def Metadata_validate_def optional_def validate_str_def validate_bool_def)
  have f: "MetadataListResponse_at_fault strict [(''doc_metadata'', PList [PStr ''m1'']), (''built_in_field_enabled'', PBool True)]"
    by (simp add: MetadataListResponse_at_fault_def absent_or_not_def Metadata_list_shaped_def)
  have "(KnowledgeTag_init strict [(''tenant'', PInt 4), (''id'', PStr ''t1''), (''name'', PStr ''Research'')]
      :: dify_error error + KnowledgeTag) = KnowledgeTag_init strict [(''id'', PStr ''t1''), (''name'', PStr ''Research'')]"
    using response_parsing [where kwargs' = "[(''tenant'', PInt 4), (''id'', PStr ''t1''), (''name'', PStr ''Research'')]"
        and kwargs = "[(''id'', PStr ''t1''), (''name'', PStr ''Research'')]" and cz = strict and ?'e = dify_error]
    by simp
  moreover have "(Metadata_init strict [(''id'', PStr ''m1''), (''type'', PStr ''string''), (''name'', PStr ''source''), (''hidden'', PBool True)]
      :: dify_error error + Metadata) = Metadata_init strict [(''id'', PStr ''m1''), (''type'', PStr ''string''), (''name'', PStr ''source'')]"
    using response_parsing [where kwargs' = "[(''id'', PStr ''m1''), (''type'', PStr ''string''), (''name'', PStr ''source''), (''hidden'', PBool True)]"
        and kwargs = "[(''id'', PStr ''m1''), (''type'', PStr ''string''), (''name'', PStr ''source'')]" and cz = strict and ?'e = dify_error]
    by simp
  moreover have "(MetadataListResponse_init strict
       [(''doc_metadata'', PList [PDict [(''id'', PStr ''m1''), (''type'', PStr ''string''), (''name'', PStr ''source'')]]),
        (''built_in_field_enabled'', PBool True), (''page'', PInt 1)]
      :: dify_error error + MetadataListResponse) =
     MetadataListResponse_init strict
       [(''doc_metadata'', PList [PDict [(''id'', PStr ''m1''), (''type'', PStr ''string''), (''name'', PStr ''source'')]]),
        (''built_in_field_enabled'', PBool True)]"
    using response_parsing [where kwargs' = "[(''doc_metadata'', PList [PDict [(''id'', PStr ''m1''), (''type'', PStr ''string''), (''name'', PStr ''source'')]]),
        (''built_in_field_enabled'', PBool True), (''page'', PInt 1)]"
        and kwargs = "[(''doc_metadata'', PList [PDict [(''id'', PStr ''m1''), (''type'', PStr ''string''), (''name'', PStr ''source'')]]),
        (''built_in_field_enabled'', PBool True)]" and cz = strict and ?'e = dify_error]
    by simp
  moreover have "(MetadataListResponse_init strict [(''doc_metadata'', PList [PStr ''m1'']), (''built_in_field_enabled'', PBool True)]
      :: dify_error error + MetadataListResponse) = Inl ValidationError"
    using response_parsing [where kwargs = "[(''doc_metadata'', PList [PStr ''m1'']), (''built_in_field_enabled'', PBool True)]"
        and cz = strict and ?'e = dify_error] f
    by blast
  ultimately show ?thesis using k m r by simp
qed

section \<open>One transport call per method\<close>

text \<open>
  C9: every method of the client, on every input that passes its local validation (a
  name of at most 50 characters for \<open>create\<close> and \<open>update\<close>, operation data that
  normalises for \<open>update_document_metadata\<close>, anything for the others), makes exactly one
  transport call, the request shown, and raises an error of the transport unchanged.
\<close>

theorem one_transport_call:
  "(length name \<le> 50 \<longrightarrow>
      exactly_one_call client \<lparr>verb = POST, path = ''/v1/datasets/tags'', json = Some (PDict [(''name'', PStr name)])\<rparr>
        \<sigma> (TagsClient_create cz client name \<sigma>)) \<and>
   exactly_one_call client \<lparr>verb = GET, path = ''/v1/datasets/tags'', json = None\<rparr>
     \<sigma> (TagsClient_list cz client \<sigma>) \<and>
   (length name \<le> 50 \<longrightarrow>
      exactly_one_call client \<lparr>verb = PATCH, path = ''/v1/datasets/tags'',
          json = Some (PDict [(''name'', PStr name), (''tag_id'', PStr tag_id)])\<rparr>
        \<sigma> (TagsClient_update cz client tag_id name \<sigma>)) \<and>
   exactly_one_call client \<lparr>verb = DELETE, path = ''/v1/datasets/tags'', json = Some (PDict [(''tag_id'', PStr tag_id)])\<rparr>
     \<sigma> (TagsClient_delete client tag_id \<sigma>) \<and>
   exactly_one_call client \<lparr>verb = POST, path = ''/v1/datasets/tags/binding'',
       json = Some (PDict [(''tag_ids'', PList (map PStr tag_ids)), (''target_id'', PStr dataset_id)])\<rparr>
     \<sigma> (TagsClient_bind_to_dataset client dataset_id tag_ids \<sigma>) \<and>
   exactly_one_call client \<lparr>verb = POST, path = ''/v1/datasets/tags/unbinding'',
       json = Some (PDict [(''tag_id'', PStr tag_id), (''target_id'', PStr dataset_id)])\<rparr>
     \<sigma> (TagsClient_unbind_from_dataset client dataset_id tag_id \<sigma>) \<and>
   exactly_one_call client \<lparr>verb = GET, path = ''/v1/datasets/'' @ dataset_id @ ''/tags'', json = None\<rparr>
     \<sigma> (TagsClient_get_dataset_tags cz client dataset_id \<sigma>) \<and>
   exactly_one_call client \<lparr>verb = POST, path = ''/v1/datasets/'' @ dataset_id @ ''/metadata'',
       json = Some (PDict [(''type'', PStr field_type), (''name'', PStr name)])\<rparr>
     \<sigma> (TagsClient_create_metadata cz client dataset_id field_type name \<sigma>) \<and>
   exactly_one_call client \<lparr>verb = PATCH, path = ''/v1/datasets/'' @ dataset_id @ ''/metadata/'' @ metadata_id,
       json = Some (PDict [(''name'', PStr name)])\<rparr>
     \<sigma> (TagsClient_update_metadata cz client dataset_id metadata_id name \<sigma>) \<and>
   exactly_one_call client \<lparr>verb = DELETE, path = ''/v1/datasets/'' @ dataset_id @ ''/metadata/'' @ metadata_id,
       json = None\<rparr>
     \<sigma> (TagsClient_delete_metadata client dataset_id metadata_id \<sigma>) \<and>
   exactly_one_call client \<lparr>verb = POST, path = ''/v1/datasets/'' @ dataset_id @ ''/metadata/built-in/'' @ action,
       json = None\<rparr>
     \<sigma> (TagsClient_toggle_built_in_metadata client dataset_id action \<sigma>) \<and>
   (list_all2 normalised operation_data ds \<longrightarrow>
      exactly_one_call client \<lparr>verb = POST, path = ''/v1/datasets/'' @ dataset_id @ ''/documents/metadata'',
          json = Some (PDict [(''operation_data'', PList (map DocumentMetadata_model_dump ds))])\<rparr>
        \<sigma> (TagsClient_update_document_metadata client dataset_id operation_data \<sigma>)) \<and>
   exactly_one_call client \<lparr>verb = GET, path = ''/v1/datasets/'' @ dataset_id @ ''/metadata'', json = None\<rparr>
     \<sigma> (TagsClient_list_metadata cz client dataset_id \<sigma>)"
  using one_call_create [of name client \<sigma> cz] one_call_list [of client \<sigma> cz]
    one_call_update [of name client tag_id \<sigma> cz] one_call_delete [of client tag_id \<sigma>]
    one_call_bind_to_dataset [of client tag_ids dataset_id \<sigma>]
    one_call_unbind_from_dataset [of client tag_id dataset_id \<sigma>]
    one_call_get_dataset_tags [of client dataset_id \<sigma> cz]
    one_call_create_metadata [of client dataset_id field_type name \<sigma> cz]
    one_call_update_metadata [of client dataset_id metadata_id name \<sigma> cz]
    one_call_delete_metadata [of client dataset_id metadata_id \<sigma>]
    one_call_toggle_built_in_metadata [of client dataset_id action \<sigma>]
    one_call_update_document_metadata [of operation_data ds client dataset_id \<sigma>]
    one_call_list_metadata [of client dataset_id \<sigma> cz]
  by blast

theorem one_transport_call_witness:
  "TagsClient_create strict (failing DifyAPIError) ''Research'' fresh =
     (Inl (Raised DifyAPIError),
      \<lparr>server = 1, calls = [\<lparr>verb = POST, path = ''/v1/datasets/tags'', json = Some (PDict [(''name'', PStr ''Research'')])\<rparr>]\<rparr>) \<and>
   TagsClient_update strict (failing DifyNotFoundError) ''t9'' ''Research'' fresh =
     (Inl (Raised DifyNotFoundError),
      \<lparr>server = 1, calls = [\<lparr>verb = PATCH, path = ''/v1/datasets/tags'',
          json = Some (PDict [(''name'', PStr ''Research''), (''tag_id'', PStr ''t9'')])\<rparr>]\<rparr>) \<and>
   TagsClient_update_document_metadata (failing DifyNotFoundError) ''ds1''
       [Mapping [(''document_id'', PStr ''d1''), (''metadata_list'', PList [])]] fresh =
     (Inl (Raised DifyNotFoundError),
      \<lparr>server = 1, calls = [\<lparr>verb = POST, path = ''/v1/datasets/ds1/documents/metadata'',
          json = Some (PDict [(''operation_data'', PList [PDict [(''document_id'', PStr ''d1''), (''metadata_list'', PList [])]])])\<rparr>]\<rparr>)"
proof -
  have n: "list_all2 normalised [Mapping [(''document_id'', PStr ''d1''), (''metadata_list'', PList [])]]
      [\<lparr>dm_document_id = ''d1'', dm_metadata_list = []\<rparr>]"
    by (simp add: normalised_def)
  have l: "length ''Research'' \<le> 50" by simp
  note t = one_transport_call [where name = "''Research''" and tag_id = "''t9''" and dataset_id = "''ds1''"
      and \<sigma> = fresh and cz = strict
      and operation_data = "[Mapping [(''document_id'', PStr ''d1''), (''metadata_list'', PList [])]]"
      and ds = "[\<lparr>dm_document_id = ''d1'', dm_metadata_list = []\<rparr>]"]
  have "exactly_one_call (failing DifyAPIError)
          \<lparr>verb = POST, path = ''/v1/datasets/tags'', json = Some (PDict [(''name'', PStr ''Research'')])\<rparr>
          fresh (TagsClient_create strict (failing DifyAPIError) ''Research'' fresh)"
    using t [where client = "failing DifyAPIError"] l by blast
  moreover have "exactly_one_call (failing DifyNotFoundError)
          \<lparr>verb = PATCH, path = ''/v1/datasets/tags'',
            json = Some (PDict [(''name'', PStr ''Research''), (''tag_id'', PStr ''t9'')])\<rparr>
          fresh (TagsClient_update strict (failing DifyNotFoundError) ''t9'' ''Research'' fresh)"
    using t [where client = "failing DifyNotFoundError"] l by blast
  moreover have "exactly_one_call (failing DifyNotFoundError)
          \<lparr>verb = POST, path = ''/v1/datasets/'' @ ''ds1'' @ ''/documents/metadata'',
            json = Some (PDict [(''operation_data'', PList (map DocumentMetadata_model_dump [\<lparr>dm_document_id = ''d1'', dm_metadata_list = []\<rparr>]))])\<rparr>
          fresh (TagsClient_update_document_metadata (failing DifyNotFoundError) ''ds1''
             [Mapping [(''document_id'', PStr ''d1''), (''metadata_list'', PList [])]] fresh)"
    using t [where client = "failing DifyNotFoundError"] n by blast
  ultimately show ?thesis
    by (simp add: exactly_one_call_def failing_def fresh_def prod_eq_iff DocumentMetadata_model_dump_def)
qed

end
